theory Spec2Isabelle
  imports Complex_Main
begin

section \<open>Checkout and order lifecycle of the e-commerce backend\<close>

text \<open>
  A shallow embedding of \<^verbatim>\<open>OrdersService\<close> (src/src/modules/orders/orders.service.ts),
  \<^verbatim>\<open>OrderManagementService\<close> (src/src/admin/order-management.service.ts) and the two
  methods of \<^verbatim>\<open>NotificationService\<close> they call.

  Conventions of the embedding:
  \<^item> A Mongo ObjectId is a natural number; every id is well formed.
  \<^item> A JavaScript number holding money is a rational number, so arithmetic is exact.
    \<^verbatim>\<open>toFixed(2)\<close> and \<^verbatim>\<open>Math.round\<close> are the decimal roundings the language
    standard describes, applied to the exact value. Quantities and stock are integers.
  \<^item> The collections are fields of one record \<open>db\<close>; each service method takes the
    database and returns its result together with the database it leaves behind. An
    exception is the left summand of the result; the database returned with it is the
    one the throw leaves behind.
  \<^item> Every effect on a collection or on the notification channel is also appended to
    the field \<open>effects\<close>, in the order the awaited calls run.
  \<^item> The clock, the random number, the id the store gives a new document and the
    store's verdict on a new order document are inputs (record \<open>env\<close>).
  \<^item> The mongoose timestamps \<^verbatim>\<open>createdAt\<close>/\<^verbatim>\<open>updatedAt\<close> are left out.
\<close>

subsection \<open>Data model\<close>

type_synonym object_id = nat

datatype OrderStatus = PENDING | CONFIRMED | PROCESSING | SHIPPED | DELIVERED | CANCELLED

text \<open>The string value of each enum member.\<close>

fun status_value :: "OrderStatus \<Rightarrow> string" where
  "status_value PENDING = ''pending''"
| "status_value CONFIRMED = ''confirmed''"
| "status_value PROCESSING = ''processing''"
| "status_value SHIPPED = ''shipped''"
| "status_value DELIVERED = ''delivered''"
| "status_value CANCELLED = ''cancelled''"

datatype http_exception =
    BadRequestException string
  | NotFoundException string
  | TypeError string

record Product =
  p_name :: string
  price :: rat
  salePrice :: "rat option"
  isOnSale :: bool
  images :: "string list"
  stock :: int
  isActive :: bool

record CartItem =
  ci_productId :: object_id
  ci_quantity :: int
  ci_size :: "string option"
  ci_color :: "string option"

record OrderItem =
  oi_productId :: object_id
  oi_productName :: string
  oi_productImage :: string
  oi_price :: rat
  oi_quantity :: int
  oi_size :: "string option"
  oi_color :: "string option"

record ShippingAddress =
  fullName :: string
  phoneNumber :: string
  streetAddress :: string
  city :: string
  state :: string
  postalCode :: string
  country :: string

record Order =
  order_id :: object_id
  userId :: object_id
  orderNumber :: string
  items :: "OrderItem list"
  subtotal :: rat
  tax :: rat
  total :: rat
  status :: OrderStatus
  shippingAddress :: ShippingAddress
  trackingNumber :: "string option"
  orderNotes :: "string option"

record User =
  firstName :: string
  lastName :: string

text \<open>The argument of \<^verbatim>\<open>notifyNewOrder\<close> (interface \<^verbatim>\<open>OrderNotification\<close>).\<close>

record OrderNotification =
  on_orderId :: object_id
  on_userId :: object_id
  on_customerName :: string
  on_totalAmount :: int
  on_itemCount :: nat
  on_status :: string

text \<open>What \<^verbatim>\<open>notifyNewOrder\<close> hands to \<^verbatim>\<open>sendToAdmins\<close>.\<close>

record new_order_message =
  nm_type :: string
  nm_title :: string
  nm_message :: string
  nm_data :: OrderNotification

text \<open>The \<^verbatim>\<open>orderData\<close> argument of \<^verbatim>\<open>sendOrderStatusUpdate\<close>; neither caller
  passes \<^verbatim>\<open>estimatedDelivery\<close>.\<close>

record status_update_data =
  sd_orderId :: object_id
  sd_status :: string
  sd_trackingNumber :: "string option"

text \<open>What \<^verbatim>\<open>sendOrderStatusUpdate\<close> hands to \<^verbatim>\<open>sendToUser\<close>.\<close>

record status_message =
  sm_type :: string
  sm_title :: string
  sm_message :: string
  sm_orderId :: object_id
  sm_status :: string
  sm_trackingNumber :: "string option"

datatype effect =
    OrderSaved Order
  | StockWritten object_id int
  | CartCleared object_id
  | OrderUpdated object_id
  | OrdersUpdatedMany "object_id list"
  | SentToAdmins string new_order_message
  | SentToUser object_id string status_message

record db =
  carts :: "object_id \<rightharpoonup> CartItem list"
  products :: "object_id \<rightharpoonup> Product"
  orders :: "Order list"
  users :: "object_id \<rightharpoonup> User"
  effects :: "effect list"

text \<open>
  What one call takes from outside the database: \<open>dateNow\<close> is \<^verbatim>\<open>Date.now()\<close>,
  \<open>random1000\<close> is \<^verbatim>\<open>Math.floor(Math.random() * 1000)\<close>, \<open>isoNow\<close> is
  \<^verbatim>\<open>new Date().toISOString()\<close>, \<open>newOrderId\<close> is the \<^verbatim>\<open>_id\<close> a new order document
  gets, and \<open>saveError\<close> is the message of the error \<^verbatim>\<open>order.save()\<close> throws when the
  store refuses the new document (schema validation, the unique index on the order
  number), \<open>None\<close> when the store accepts it.
\<close>

record env =
  dateNow :: nat
  random1000 :: nat
  isoNow :: string
  newOrderId :: object_id
  saveError :: "string option"

subsection \<open>Numbers and strings of the host language\<close>

text \<open>\<^verbatim>\<open>Number(x.toFixed(2))\<close>: the multiple of 0.01 nearest to \<open>x\<close>, the larger one in
  magnitude on a tie; the sign is handled apart (for magnitudes below \<open>10\<^sup>2\<^sup>1\<close>, where
  \<^verbatim>\<open>toFixed\<close> prints decimal digits).\<close>

definition toFixed2 :: "rat \<Rightarrow> rat" where
  "toFixed2 x =
     (if x < 0 then - (of_int \<lfloor>(- x) * 100 + 1 / 2\<rfloor> / 100)
      else of_int \<lfloor>x * 100 + 1 / 2\<rfloor> / 100)"

text \<open>\<^verbatim>\<open>Math.round\<close>: the nearest integer, the larger one on a tie.\<close>

definition Math_round :: "rat \<Rightarrow> int" where
  "Math_round x = \<lfloor>x + 1 / 2\<rfloor>"

text \<open>The decimal digits of a whole number, as \<^verbatim>\<open>toString\<close> and template strings print
  it (for magnitudes below \<open>10\<^sup>2\<^sup>1\<close>).\<close>

definition digit_char :: "nat \<Rightarrow> char" where
  "digit_char d = ''0123456789'' ! d"

function show_nat :: "nat \<Rightarrow> string" where
  "show_nat n = (if n < 10 then [digit_char n] else show_nat (n div 10) @ [digit_char (n mod 10)])"
  by pat_completeness auto
termination
  by (relation "measure id") auto

definition show_int :: "int \<Rightarrow> string" where
  "show_int i = (if i < 0 then CHR ''-'' # show_nat (nat (- i)) else show_nat (nat i))"

definition padStart :: "nat \<Rightarrow> char \<Rightarrow> string \<Rightarrow> string" where
  "padStart n c s = replicate (n - length s) c @ s"

text \<open>Truthiness of an optional string and of an optional number, and \<^verbatim>\<open>s || d\<close>.\<close>

fun truthy_str :: "string option \<Rightarrow> bool" where
  "truthy_str None = False"
| "truthy_str (Some s) = (s \<noteq> [])"

fun truthy_num :: "rat option \<Rightarrow> bool" where
  "truthy_num None = False"
| "truthy_num (Some v) = (v \<noteq> 0)"

definition str_or :: "string option \<Rightarrow> string \<Rightarrow> string" where
  "str_or s d = (case s of None \<Rightarrow> d | Some v \<Rightarrow> if v = [] then d else v)"

subsection \<open>The store primitives\<close>

text \<open>The order collection is the list of its documents in insertion order; \<^verbatim>\<open>findById\<close>
  returns the document with the id, \<open>update_order\<close> rewrites it in place, and \<open>emit\<close>
  records an effect.\<close>

definition findById :: "Order list \<Rightarrow> object_id \<Rightarrow> Order option" where
  "findById os i = find (\<lambda>ord. order_id ord = i) os"

definition update_order :: "object_id \<Rightarrow> (Order \<Rightarrow> Order) \<Rightarrow> Order list \<Rightarrow> Order list" where
  "update_order i f os = map (\<lambda>ord. if order_id ord = i then f ord else ord) os"

definition emit :: "effect \<Rightarrow> db \<Rightarrow> db" where
  "emit e st = st\<lparr>effects := effects st @ [e]\<rparr>"

subsection \<open>NotificationService\<close>

text \<open>The two methods hand their payload to the gateway's \<^verbatim>\<open>sendToUser\<close> and
  \<^verbatim>\<open>sendToAdmins\<close>; the timestamp the gateway adds to it is left out.\<close>

definition statusMessages :: "string \<rightharpoonup> string" where
  "statusMessages = map_of
     [(''pending'', ''Your order has been received and is being processed.''),
      (''confirmed'', ''Your order has been confirmed and is being prepared.''),
      (''shipped'', ''Your order has been shipped and is on its way!''),
      (''delivered'', ''Your order has been delivered successfully.''),
      (''cancelled'', ''Your order has been cancelled.'')]"

definition sendOrderStatusUpdate :: "object_id \<Rightarrow> status_update_data \<Rightarrow> db \<Rightarrow> db" where
  "sendOrderStatusUpdate uid orderData st =
     emit (SentToUser uid ''order_status_update''
       \<lparr>sm_type = ''ORDER_UPDATE'',
        sm_title = ''Order Status Update'',
        sm_message = (case statusMessages (sd_status orderData) of
                        Some m \<Rightarrow> if m = [] then ''Your order status: '' @ sd_status orderData else m
                      | None \<Rightarrow> ''Your order status: '' @ sd_status orderData),
        sm_orderId = sd_orderId orderData,
        sm_status = sd_status orderData,
        sm_trackingNumber = sd_trackingNumber orderData\<rparr>) st"

definition notifyNewOrder :: "OrderNotification \<Rightarrow> db \<Rightarrow> db" where
  "notifyNewOrder orderData st =
     emit (SentToAdmins ''new_order_notification''
       \<lparr>nm_type = ''NEW_ORDER'',
        nm_title = ''New Order Received'',
        nm_message = ''New order from '' @ on_customerName orderData @ '' - $''
                       @ show_int (on_totalAmount orderData),
        nm_data = orderData\<rparr>) st"

subsection \<open>OrdersService: the status engine\<close>

fun getValidStatusTransitions :: "OrderStatus \<Rightarrow> OrderStatus list" where
  "getValidStatusTransitions PENDING = [CONFIRMED, CANCELLED]"
| "getValidStatusTransitions CONFIRMED = [PROCESSING, CANCELLED]"
| "getValidStatusTransitions PROCESSING = [SHIPPED, CANCELLED]"
| "getValidStatusTransitions SHIPPED = [DELIVERED]"
| "getValidStatusTransitions DELIVERED = []"
| "getValidStatusTransitions CANCELLED = []"

record UpdateOrderStatusDto =
  dto_status :: OrderStatus
  dto_statusNote :: "string option"

record status_result =
  sr_id :: object_id
  sr_orderNumber :: string
  sr_status :: OrderStatus

text \<open>The line the status note adds to \<^verbatim>\<open>orderNotes\<close>.\<close>

definition status_note_line :: "string \<Rightarrow> OrderStatus \<Rightarrow> string \<Rightarrow> string" where
  "status_note_line ts s note =
     [CHR 0x0A] @ ''['' @ ts @ ''] Status changed to '' @ status_value s @ '': '' @ note"

text \<open>The assignments to the document that was read: the new status, and the note line
  when \<^verbatim>\<open>statusNote\<close> is truthy.\<close>

definition apply_status :: "env \<Rightarrow> UpdateOrderStatusDto \<Rightarrow> Order \<Rightarrow> Order" where
  "apply_status e dto ord =
     (let ord1 = ord\<lparr>status := dto_status dto\<rparr>
      in if truthy_str (dto_statusNote dto)
         then ord1\<lparr>orderNotes :=
                Some (str_or (orderNotes ord1) [] @
                      status_note_line (isoNow e) (dto_status dto) (the (dto_statusNote dto)))\<rparr>
         else ord1)"

definition updateOrderStatus ::
  "env \<Rightarrow> db \<Rightarrow> object_id \<Rightarrow> UpdateOrderStatusDto \<Rightarrow> (http_exception + status_result) \<times> db" where
  "updateOrderStatus e st orderId dto =
     (case findById (orders st) orderId of
        None \<Rightarrow> (Inl (NotFoundException ''Order not found''), st)
      | Some ord \<Rightarrow>
          if dto_status dto \<notin> set (getValidStatusTransitions (status ord)) then
            (Inl (BadRequestException
               (''Cannot change status from '' @ status_value (status ord)
                  @ '' to '' @ status_value (dto_status dto))), st)
          else
            let ord2 = apply_status e dto ord;
                st1 = emit (OrderUpdated orderId)
                        (st\<lparr>orders := update_order orderId (\<lambda>_. ord2) (orders st)\<rparr>);
                st2 = sendOrderStatusUpdate (userId ord2)
                        \<lparr>sd_orderId = order_id ord2,
                         sd_status = status_value (status ord2),
                         sd_trackingNumber = None\<rparr> st1
            in (Inr \<lparr>sr_id = order_id ord2,
                     sr_orderNumber = orderNumber ord2,
                     sr_status = status ord2\<rparr>, st2))"

subsection \<open>OrdersService: checkout\<close>

record CreateOrderDto =
  dto_shippingAddress :: "ShippingAddress option"
  dto_orderNotes :: "string option"

record StockUpdate =
  su_productId :: object_id
  su_newStock :: int

text \<open>The object \<^verbatim>\<open>getOrderById\<close> returns. \<^verbatim>\<open>populate\<close> on the items' product
  reference is left out: the items are returned as they are stored.\<close>

record order_view =
  ov_id :: object_id
  ov_orderNumber :: string
  ov_status :: OrderStatus
  ov_items :: "OrderItem list"
  ov_subtotal :: rat
  ov_tax :: rat
  ov_total :: rat
  ov_shippingAddress :: ShippingAddress
  ov_orderNotes :: "string option"

definition generateOrderNumber :: "env \<Rightarrow> string" where
  "generateOrderNumber e =
     ''ORD-'' @ show_nat (dateNow e) @ ''-'' @ padStart 3 (CHR ''0'') (show_nat (random1000 e))"

definition order_view_of :: "Order \<Rightarrow> order_view" where
  "order_view_of ord =
     \<lparr>ov_id = order_id ord,
      ov_orderNumber = orderNumber ord,
      ov_status = status ord,
      ov_items = items ord,
      ov_subtotal = subtotal ord,
      ov_tax = tax ord,
      ov_total = total ord,
      ov_shippingAddress = shippingAddress ord,
      ov_orderNotes = orderNotes ord\<rparr>"

definition getOrderById :: "db \<Rightarrow> object_id \<Rightarrow> object_id \<Rightarrow> http_exception + order_view" where
  "getOrderById st uid orderId =
     (case find (\<lambda>ord. order_id ord = orderId \<and> userId ord = uid) (orders st) of
        None \<Rightarrow> Inl (NotFoundException ''Order not found'')
      | Some ord \<Rightarrow> Inr (order_view_of ord))"

text \<open>\<^verbatim>\<open>product.isOnSale && product.salePrice ? product.salePrice : product.price\<close>\<close>

definition itemPrice :: "Product \<Rightarrow> rat" where
  "itemPrice product =
     (if isOnSale product \<and> truthy_num (salePrice product)
      then the (salePrice product) else price product)"

text \<open>The product snapshot pushed onto \<^verbatim>\<open>orderItems\<close> and the entry pushed onto
  \<^verbatim>\<open>stockUpdates\<close> for one cart item.\<close>

definition order_item :: "Product \<Rightarrow> CartItem \<Rightarrow> OrderItem" where
  "order_item product cartItem =
     \<lparr>oi_productId = ci_productId cartItem,
      oi_productName = p_name product,
      oi_productImage = (case images product of [] \<Rightarrow> [] | img # _ \<Rightarrow> img),
      oi_price = itemPrice product,
      oi_quantity = ci_quantity cartItem,
      oi_size = ci_size cartItem,
      oi_color = ci_color cartItem\<rparr>"

definition new_stock_entry :: "Product \<Rightarrow> CartItem \<Rightarrow> StockUpdate" where
  "new_stock_entry product cartItem =
     \<lparr>su_productId = ci_productId cartItem,
      su_newStock = stock product - ci_quantity cartItem\<rparr>"

text \<open>
  The loop over \<^verbatim>\<open>cart.items\<close>. The cart was read with its product references
  populated: a reference to a product that no longer exists is \<^verbatim>\<open>null\<close>, here \<open>None\<close>.
  The accumulator holds \<^verbatim>\<open>orderItems\<close>, \<^verbatim>\<open>subtotal\<close> and \<^verbatim>\<open>stockUpdates\<close>.
\<close>

fun validate_items ::
  "(object_id \<rightharpoonup> Product) \<Rightarrow> CartItem list \<Rightarrow> OrderItem list \<times> rat \<times> StockUpdate list
     \<Rightarrow> http_exception + (OrderItem list \<times> rat \<times> StockUpdate list)" where
  "validate_items ps [] acc = Inr acc"
| "validate_items ps (cartItem # rest) (orderItems, sub, stockUpdates) =
     (case ps (ci_productId cartItem) of
        None \<Rightarrow> Inl (BadRequestException (''Product '' @ ''Unknown'' @ '' is no longer available''))
      | Some product \<Rightarrow>
          if \<not> isActive product then
            Inl (BadRequestException
              (''Product '' @ (if p_name product = [] then ''Unknown'' else p_name product)
                 @ '' is no longer available''))
          else if stock product < ci_quantity cartItem then
            Inl (BadRequestException
              (''Insufficient stock for '' @ p_name product @ ''. Available: ''
                 @ show_int (stock product) @ '', Requested: ''
                 @ show_int (ci_quantity cartItem)))
          else
            validate_items ps rest
              (orderItems @ [order_item product cartItem],
               sub + itemPrice product * of_int (ci_quantity cartItem),
               stockUpdates @ [new_stock_entry product cartItem]))"

text \<open>\<^verbatim>\<open>productModel.findByIdAndUpdate(id, { stock: newStock })\<close>, and the loop over
  \<^verbatim>\<open>stockUpdates\<close>.\<close>

definition set_stock :: "StockUpdate \<Rightarrow> db \<Rightarrow> db" where
  "set_stock u st =
     emit (StockWritten (su_productId u) (su_newStock u))
       (case products st (su_productId u) of
          None \<Rightarrow> st
        | Some p \<Rightarrow> st\<lparr>products := (products st)(su_productId u \<mapsto> p\<lparr>stock := su_newStock u\<rparr>)\<rparr>)"

fun update_stock :: "StockUpdate list \<Rightarrow> db \<Rightarrow> db" where
  "update_stock [] st = st"
| "update_stock (u # us) st = update_stock us (set_stock u st)"

text \<open>\<^verbatim>\<open>cartModel.findOneAndUpdate({ userId }, { $set: { items: [] } })\<close>\<close>

definition clear_cart :: "object_id \<Rightarrow> db \<Rightarrow> db" where
  "clear_cart uid st =
     emit (CartCleared uid)
       (case carts st uid of
          None \<Rightarrow> st
        | Some _ \<Rightarrow> st\<lparr>carts := (carts st)(uid \<mapsto> [])\<rparr>)"

definition demo_address :: ShippingAddress where
  "demo_address =
     \<lparr>fullName = ''Demo User'',
      phoneNumber = ''+1-555-0123'',
      streetAddress = ''123 Main Street'',
      city = ''New York'',
      state = ''NY'',
      postalCode = ''10001'',
      country = ''US''\<rparr>"

text \<open>The document built at \<^verbatim>\<open>new this.orderModel({...})\<close>; \<open>sub\<close> is the unrounded
  subtotal of the loop.\<close>

definition new_order ::
  "env \<Rightarrow> object_id \<Rightarrow> CreateOrderDto \<Rightarrow> OrderItem list \<Rightarrow> rat \<Rightarrow> Order" where
  "new_order e uid dto orderItems sub =
     (let taxRate = 1 / 10;
          tax = sub * taxRate;
          total = sub + tax
      in \<lparr>order_id = newOrderId e,
          userId = uid,
          orderNumber = generateOrderNumber e,
          items = orderItems,
          subtotal = toFixed2 sub,
          tax = toFixed2 tax,
          total = toFixed2 total,
          status = PENDING,
          shippingAddress =
            (case dto_shippingAddress dto of None \<Rightarrow> demo_address | Some a \<Rightarrow> a),
          trackingNumber = None,
          orderNotes = Some (str_or (dto_orderNotes dto) ''Order placed via demo cart'')\<rparr>)"

text \<open>The mutation phase: everything from \<^verbatim>\<open>order.save()\<close> on. When the store refuses
  the document, \<^verbatim>\<open>save\<close> throws and the handler wraps the store's message.\<close>

definition place_order ::
  "env \<Rightarrow> db \<Rightarrow> object_id \<Rightarrow> Order \<Rightarrow> rat \<Rightarrow> StockUpdate list
     \<Rightarrow> (http_exception + order_view) \<times> db" where
  "place_order e st uid ord sub stockUpdates =
     (case saveError e of
        Some msg \<Rightarrow> (Inl (BadRequestException (''Failed to create order: '' @ msg)), st)
      | None \<Rightarrow>
          let st1 = emit (OrderSaved ord) (st\<lparr>orders := orders st @ [ord]\<rparr>);
              st2 = (case users st1 uid of
                       None \<Rightarrow> st1
                     | Some user \<Rightarrow>
                         notifyNewOrder
                           \<lparr>on_orderId = order_id ord,
                            on_userId = uid,
                            on_customerName = firstName user @ '' '' @ lastName user,
                            on_totalAmount = Math_round (sub + sub * (1 / 10)),
                            on_itemCount = length (items ord),
                            on_status = status_value PENDING\<rparr> st1);
              st3 = update_stock stockUpdates st2;
              st4 = clear_cart uid st3
          in (getOrderById st4 uid (order_id ord), st4))"

definition createOrderFromCart ::
  "env \<Rightarrow> db \<Rightarrow> object_id \<Rightarrow> CreateOrderDto \<Rightarrow> (http_exception + order_view) \<times> db" where
  "createOrderFromCart e st uid dto =
     (case carts st uid of
        None \<Rightarrow> (Inl (BadRequestException ''Cart is empty. Cannot create order.''), st)
      | Some cart_items \<Rightarrow>
          if cart_items = [] then
            (Inl (BadRequestException ''Cart is empty. Cannot create order.''), st)
          else
            (case validate_items (products st) cart_items ([], 0, []) of
               Inl ex \<Rightarrow> (Inl ex, st)
             | Inr (orderItems, sub, stockUpdates) \<Rightarrow>
                 place_order e st uid (new_order e uid dto orderItems sub) sub stockUpdates))"

subsection \<open>OrderManagementService: the admin dashboard's updates\<close>

text \<open>
  \<^verbatim>\<open>updateData\<close> as a function on the stored document: the status always, the tracking
  number when the given one is truthy. \<^verbatim>\<open>adminNotes\<close> is no path of the Order schema,
  so the store drops it from \<^verbatim>\<open>$set\<close>.
\<close>

definition apply_updateData :: "OrderStatus \<Rightarrow> string option \<Rightarrow> Order \<Rightarrow> Order" where
  "apply_updateData s tn ord =
     ord\<lparr>status := s,
         trackingNumber := (if truthy_str tn then tn else trackingNumber ord)\<rparr>"

record admin_update_result =
  ar_order :: "Order option"
  ar_message :: string

text \<open>The user reference of the updated order is populated; when the user document is
  gone it is \<^verbatim>\<open>null\<close> and reading \<^verbatim>\<open>userId._id\<close> throws.\<close>

definition OrderManagementService_updateOrderStatus ::
  "db \<Rightarrow> object_id \<Rightarrow> OrderStatus \<Rightarrow> string option \<Rightarrow> string option
     \<Rightarrow> (http_exception + admin_update_result) \<times> db" where
  "OrderManagementService_updateOrderStatus st orderId s tn adminNotes =
     (case findById (orders st) orderId of
        None \<Rightarrow> (Inl (NotFoundException ''Order not found''), st)
      | Some _ \<Rightarrow>
          let st1 = emit (OrderUpdated orderId)
                      (st\<lparr>orders := update_order orderId (apply_updateData s tn) (orders st)\<rparr>)
          in (case findById (orders st1) orderId of
                None \<Rightarrow>
                  (Inr \<lparr>ar_order = None,
                        ar_message = ''Order status updated to '' @ status_value s\<rparr>, st1)
              | Some updatedOrder \<Rightarrow>
                  (case users st1 (userId updatedOrder) of
                     None \<Rightarrow>
                       (Inl (TypeError ''Cannot read properties of null (reading '_id')''), st1)
                   | Some _ \<Rightarrow>
                       (Inr \<lparr>ar_order = Some updatedOrder,
                             ar_message = ''Order status updated to '' @ status_value s\<rparr>,
                        sendOrderStatusUpdate (userId updatedOrder)
                          \<lparr>sd_orderId = order_id updatedOrder,
                           sd_status = status_value (status updatedOrder),
                           sd_trackingNumber = trackingNumber updatedOrder\<rparr> st1))))"

record BulkOrderUpdate =
  bu_orderIds :: "object_id list"
  bu_status :: OrderStatus
  bu_trackingNumber :: "string option"
  bu_notes :: "string option"

record bulk_result =
  br_success :: bool
  br_affectedOrders :: nat
  br_status :: OrderStatus
  br_message :: string

text \<open>The loop that notifies the customers of the orders read before the update; it
  stops at the first order whose user document is gone.\<close>

fun bulk_notify ::
  "OrderStatus \<Rightarrow> string option \<Rightarrow> Order list \<Rightarrow> db \<Rightarrow> http_exception option \<times> db" where
  "bulk_notify s tn [] st = (None, st)"
| "bulk_notify s tn (ord # rest) st =
     (case users st (userId ord) of
        None \<Rightarrow> (Some (TypeError ''Cannot read properties of null (reading '_id')''), st)
      | Some _ \<Rightarrow>
          bulk_notify s tn rest
            (sendOrderStatusUpdate (userId ord)
               \<lparr>sd_orderId = order_id ord,
                sd_status = status_value s,
                sd_trackingNumber = tn\<rparr> st))"

definition bulkUpdateOrders ::
  "db \<Rightarrow> BulkOrderUpdate \<Rightarrow> (http_exception + bulk_result) \<times> db" where
  "bulkUpdateOrders st bulkUpdate =
     (let orderIds = bu_orderIds bulkUpdate;
          s = bu_status bulkUpdate;
          tn = bu_trackingNumber bulkUpdate
      in if orderIds = [] then (Inl (BadRequestException ''Order IDs are required''), st)
         else
           let found = filter (\<lambda>ord. order_id ord \<in> set orderIds) (orders st);
               modifiedCount = length (filter (\<lambda>ord. apply_updateData s tn ord \<noteq> ord) found);
               st1 = emit (OrdersUpdatedMany orderIds)
                       (st\<lparr>orders :=
                            map (\<lambda>ord. if order_id ord \<in> set orderIds
                                       then apply_updateData s tn ord else ord) (orders st)\<rparr>)
           in (case bulk_notify s tn found st1 of
                 (Some ex, st2) \<Rightarrow> (Inl ex, st2)
               | (None, st2) \<Rightarrow>
                   (Inr \<lparr>br_success = True,
                         br_affectedOrders = modifiedCount,
                         br_status = s,
                         br_message = show_nat modifiedCount @ '' orders updated to ''
                                        @ status_value s\<rparr>, st2)))"

subsection \<open>A sequence of status updates on one order\<close>

fun run_updates ::
  "env \<Rightarrow> db \<Rightarrow> object_id \<Rightarrow> UpdateOrderStatusDto list
     \<Rightarrow> (http_exception + status_result) list \<times> db" where
  "run_updates e st i [] = ([], st)"
| "run_updates e st i (d # ds) =
     (case updateOrderStatus e st i d of
        (r, st1) \<Rightarrow> (case run_updates e st1 i ds of (rs, st2) \<Rightarrow> (r # rs, st2)))"

subsection \<open>Concrete inputs\<close>

definition env0 :: env where
  "env0 = \<lparr>dateNow = 1700000000000, random1000 = 7,
           isoNow = ''2024-01-15T11:00:00.000Z'', newOrderId = 100, saveError = None\<rparr>"

definition alice :: User where
  "alice = \<lparr>firstName = ''Alice'', lastName = ''Doe''\<rparr>"

definition item_ex :: OrderItem where
  "item_ex = \<lparr>oi_productId = 10, oi_productName = ''Shirt'', oi_productImage = ''shirt.png'',
              oi_price = 25, oi_quantity = 2, oi_size = Some ''M'', oi_color = None\<rparr>"

text \<open>An order of user 5 with a given id, status, tracking number and notes.\<close>

definition order_ex :: "object_id \<Rightarrow> OrderStatus \<Rightarrow> string option \<Rightarrow> string option \<Rightarrow> Order" where
  "order_ex i s tn notes =
     \<lparr>order_id = i, userId = 5, orderNumber = ''ORD-1700000000000-001'', items = [item_ex],
      subtotal = 50, tax = 5, total = 55, status = s, shippingAddress = demo_address,
      trackingNumber = tn, orderNotes = notes\<rparr>"

definition db_orders :: "Order list \<Rightarrow> db" where
  "db_orders os =
     \<lparr>carts = Map.empty, products = Map.empty, orders = os,
      users = [5 \<mapsto> alice], effects = []\<rparr>"

subsection \<open>The preconditions of checkout, per cart entry\<close>

text \<open>An entry whose product is missing or inactive; an entry that asks for more than the
  product's stock; an entry that passes both checks.\<close>

definition unavailable :: "(object_id \<rightharpoonup> Product) \<Rightarrow> CartItem \<Rightarrow> bool" where
  "unavailable ps ci = (case ps (ci_productId ci) of None \<Rightarrow> True | Some p \<Rightarrow> \<not> isActive p)"

definition insufficient :: "(object_id \<rightharpoonup> Product) \<Rightarrow> CartItem \<Rightarrow> bool" where
  "insufficient ps ci =
     (case ps (ci_productId ci) of None \<Rightarrow> False | Some p \<Rightarrow> stock p < ci_quantity ci)"

definition entry_ok :: "(object_id \<rightharpoonup> Product) \<Rightarrow> CartItem \<Rightarrow> bool" where
  "entry_ok ps ci = (\<not> unavailable ps ci \<and> \<not> insufficient ps ci)"

text \<open>The unrounded subtotal of a cart: the sum of price times quantity.\<close>

definition cart_sum :: "(object_id \<rightharpoonup> Product) \<Rightarrow> CartItem list \<Rightarrow> rat" where
  "cart_sum ps cart =
     sum_list (map (\<lambda>ci. itemPrice (the (ps (ci_productId ci))) * of_int (ci_quantity ci)) cart)"

text \<open>What the loop body throws at an entry that fails a check.\<close>

definition entry_error :: "(object_id \<rightharpoonup> Product) \<Rightarrow> CartItem \<Rightarrow> http_exception" where
  "entry_error ps ci =
     (case ps (ci_productId ci) of
        None \<Rightarrow> BadRequestException ''Product Unknown is no longer available''
      | Some p \<Rightarrow>
          if \<not> isActive p then
            BadRequestException (''Product '' @ (if p_name p = [] then ''Unknown'' else p_name p)
                   @ '' is no longer available'')
          else
            BadRequestException (''Insufficient stock for '' @ p_name p @ ''. Available: ''
                   @ show_int (stock p) @ '', Requested: '' @ show_int (ci_quantity ci)))"

text \<open>The order items and the stock entries the loop builds from a cart that passes.\<close>

definition cart_order_items :: "(object_id \<rightharpoonup> Product) \<Rightarrow> CartItem list \<Rightarrow> OrderItem list" where
  "cart_order_items ps cart = map (\<lambda>ci. order_item (the (ps (ci_productId ci))) ci) cart"

definition cart_stock_entries :: "(object_id \<rightharpoonup> Product) \<Rightarrow> CartItem list \<Rightarrow> StockUpdate list" where
  "cart_stock_entries ps cart = map (\<lambda>ci. new_stock_entry (the (ps (ci_productId ci))) ci) cart"

subsection \<open>A shop for the examples\<close>

definition prodA :: Product where
  "prodA = \<lparr>p_name = ''Shirt'', price = 20, salePrice = None, isOnSale = False,
            images = [''shirt.png''], stock = 3, isActive = True\<rparr>"

definition prodB :: Product where
  "prodB = \<lparr>p_name = ''Cap'', price = 10, salePrice = None, isOnSale = False,
            images = [], stock = 8, isActive = True\<rparr>"

definition prodGone :: Product where
  "prodGone = \<lparr>p_name = ''Scarf'', price = 15, salePrice = None, isOnSale = False,
               images = [], stock = 4, isActive = False\<rparr>"

definition shop :: "object_id \<rightharpoonup> Product" where
  "shop = [10 \<mapsto> prodA, 11 \<mapsto> prodB, 12 \<mapsto> prodGone]"

definition cart_item :: "object_id \<Rightarrow> int \<Rightarrow> CartItem" where
  "cart_item pid qty = \<lparr>ci_productId = pid, ci_quantity = qty, ci_size = None, ci_color = None\<rparr>"

text \<open>User 5 with a cart, over a given product collection; no orders yet.\<close>

definition db_shop :: "(object_id \<rightharpoonup> Product) \<Rightarrow> CartItem list \<Rightarrow> db" where
  "db_shop ps cart =
     \<lparr>carts = [5 \<mapsto> cart], products = ps, orders = [], users = [5 \<mapsto> alice], effects = []\<rparr>"

definition dto0 :: CreateOrderDto where
  "dto0 = \<lparr>dto_shippingAddress = None, dto_orderNotes = None\<rparr>"

text \<open>The database after the mutation phase of a checkout that saved the order \<open>ord\<close>:
  the writes of \<open>place_order\<close> composed.\<close>

definition after_checkout :: "env \<Rightarrow> db \<Rightarrow> object_id \<Rightarrow> Order \<Rightarrow> CartItem list \<Rightarrow> db" where
  "after_checkout e st uid ord cart =
     clear_cart uid (update_stock (cart_stock_entries (products st) cart)
        ((case users st uid of
            None \<Rightarrow> (\<lambda>s. s)
          | Some user \<Rightarrow>
              notifyNewOrder
                \<lparr>on_orderId = order_id ord, on_userId = uid,
                 on_customerName = firstName user @ '' '' @ lastName user,
                 on_totalAmount = Math_round (cart_sum (products st) cart
                                    + cart_sum (products st) cart * (1 / 10)),
                 on_itemCount = length (items ord),
                 on_status = status_value PENDING\<rparr>)
           (emit (OrderSaved ord) (st\<lparr>orders := orders st @ [ord]\<rparr>))))"

text \<open>Two products on sale: one whose sale price is its price of 19.99 less 15 percent,
  and one whose sale price is zero.\<close>

definition prodS :: Product where
  "prodS = \<lparr>p_name = ''Jeans'', price = 1999 / 100, salePrice = Some (169915 / 10000),
            isOnSale = True, images = [''jeans.png''], stock = 10, isActive = True\<rparr>"

definition prodZ :: Product where
  "prodZ = \<lparr>p_name = ''Hoodie'', price = 20, salePrice = Some 0,
            isOnSale = True, images = [''hoodie.png''], stock = 4, isActive = True\<rparr>"

definition sale_shop :: "object_id \<rightharpoonup> Product" where
  "sale_shop = [20 \<mapsto> prodS, 21 \<mapsto> prodZ]"

section \<open>The status engine\<close>

lemma findById_Some_id: "findById os i = Some ord \<Longrightarrow> order_id ord = i"
  unfolding findById_def by (auto simp: find_Some_iff)

lemma findById_update_order:
  assumes "order_id new = i"
  shows "findById (update_order i (\<lambda>_. new) os) i =
           (case findById os i of None \<Rightarrow> None | Some _ \<Rightarrow> Some new)"
  using assms unfolding findById_def update_order_def
  by (induction os) auto

lemma findById_update_order_other:
  "j \<noteq> i \<Longrightarrow> order_id new = i \<Longrightarrow> findById (update_order i (\<lambda>_. new) os) j = findById os j"
  unfolding findById_def update_order_def
  by (induction os) auto

lemma updateOrderStatus_missing:
  "findById (orders st) i = None \<Longrightarrow>
   updateOrderStatus e st i dto = (Inl (NotFoundException ''Order not found''), st)"
  by (simp add: updateOrderStatus_def)

lemma updateOrderStatus_invalid:
  "findById (orders st) i = Some ord \<Longrightarrow>
   dto_status dto \<notin> set (getValidStatusTransitions (status ord)) \<Longrightarrow>
   updateOrderStatus e st i dto =
     (Inl (BadRequestException (''Cannot change status from '' @ status_value (status ord)
        @ '' to '' @ status_value (dto_status dto))), st)"
  by (simp add: updateOrderStatus_def)

lemma sendOrderStatusUpdate_effect:
  "\<exists>msg. sendOrderStatusUpdate u d st = st\<lparr>effects := effects st @ [SentToUser u ''order_status_update'' msg]\<rparr>
     \<and> sm_orderId msg = sd_orderId d \<and> sm_status msg = sd_status d
     \<and> sm_trackingNumber msg = sd_trackingNumber d"
  unfolding sendOrderStatusUpdate_def emit_def by (intro exI conjI) (rule refl, simp_all)

text \<open>The document a valid update stores, and what it emits.\<close>

lemma apply_status_fields [simp]:
  "status (apply_status e dto ord) = dto_status dto"
  "order_id (apply_status e dto ord) = order_id ord"
  "userId (apply_status e dto ord) = userId ord"
  "orderNumber (apply_status e dto ord) = orderNumber ord"
  "trackingNumber (apply_status e dto ord) = trackingNumber ord"
  by (simp_all add: apply_status_def Let_def)

lemma updateOrderStatus_valid:
  assumes "findById (orders st) i = Some ord"
    and "dto_status dto \<in> set (getValidStatusTransitions (status ord))"
  shows "\<exists>msg.
           updateOrderStatus e st i dto =
             (Inr \<lparr>sr_id = i, sr_orderNumber = orderNumber ord, sr_status = dto_status dto\<rparr>,
              st\<lparr>orders := update_order i (\<lambda>_. apply_status e dto ord) (orders st),
                 effects := effects st @ [OrderUpdated i,
                    SentToUser (userId ord) ''order_status_update'' msg]\<rparr>)
           \<and> sm_orderId msg = i
           \<and> sm_status msg = status_value (dto_status dto)
           \<and> sm_trackingNumber msg = None"
proof -
  have i: "order_id ord = i" using assms(1) by (rule findById_Some_id)
  let ?st1 = "emit (OrderUpdated i) (st\<lparr>orders := update_order i (\<lambda>_. apply_status e dto ord) (orders st)\<rparr>)"
  let ?d = "\<lparr>sd_orderId = i, sd_status = status_value (dto_status dto), sd_trackingNumber = None\<rparr>"
  have run: "updateOrderStatus e st i dto =
      (Inr \<lparr>sr_id = i, sr_orderNumber = orderNumber ord, sr_status = dto_status dto\<rparr>,
       sendOrderStatusUpdate (userId ord) ?d ?st1)"
    using assms i by (simp add: updateOrderStatus_def Let_def)
  obtain msg where msg: "sendOrderStatusUpdate (userId ord) ?d ?st1 =
        ?st1\<lparr>effects := effects ?st1 @ [SentToUser (userId ord) ''order_status_update'' msg]\<rparr>"
      "sm_orderId msg = i" "sm_status msg = status_value (dto_status dto)"
      "sm_trackingNumber msg = None"
    using sendOrderStatusUpdate_effect [of "userId ord" ?d ?st1] by auto
  show ?thesis
    using run msg by (intro exI [of _ msg]) (simp add: emit_def)
qed

lemma updateOrderStatus_step:
  assumes "findById (orders st) i = Some ord"
    and "dto_status dto \<in> set (getValidStatusTransitions (status ord))"
  shows "\<exists>r st'. updateOrderStatus e st i dto = (Inr r, st')
           \<and> sr_status r = dto_status dto
           \<and> findById (orders st') i = Some (apply_status e dto ord)
           \<and> (\<forall>j. j \<noteq> i \<longrightarrow> findById (orders st') j = findById (orders st) j)"
proof -
  have i: "order_id (apply_status e dto ord) = i"
    using assms(1) by (simp add: findById_Some_id)
  obtain msg where
    "updateOrderStatus e st i dto =
       (Inr \<lparr>sr_id = i, sr_orderNumber = orderNumber ord, sr_status = dto_status dto\<rparr>,
        st\<lparr>orders := update_order i (\<lambda>_. apply_status e dto ord) (orders st),
           effects := effects st @ [OrderUpdated i,
              SentToUser (userId ord) ''order_status_update'' msg]\<rparr>)"
    using updateOrderStatus_valid [OF assms, of e] by blast
  then show ?thesis
    using assms(1) i by (simp add: findById_update_order findById_update_order_other)
qed

lemma run_updates_chain:
  assumes found: "findById (orders st) i = Some ord"
    and pending: "status ord = PENDING"
    and ds: "map dto_status ds = [CONFIRMED, PROCESSING, SHIPPED, DELIVERED]"
  shows "\<exists>rs st' ord'. run_updates e st i ds = (map Inr rs, st')
           \<and> map sr_status rs = [CONFIRMED, PROCESSING, SHIPPED, DELIVERED]
           \<and> findById (orders st') i = Some ord' \<and> status ord' = DELIVERED"
proof -
  obtain d1 d2 d3 d4 where dsq: "ds = [d1, d2, d3, d4]"
    and s: "dto_status d1 = CONFIRMED" "dto_status d2 = PROCESSING"
           "dto_status d3 = SHIPPED" "dto_status d4 = DELIVERED"
    using ds by (auto simp: map_eq_Cons_conv)
  obtain r1 st1 where 1: "updateOrderStatus e st i d1 = (Inr r1, st1)" "sr_status r1 = CONFIRMED"
      "findById (orders st1) i = Some (apply_status e d1 ord)"
    using updateOrderStatus_step [OF found, of d1 e] pending s by auto
  obtain r2 st2 where 2: "updateOrderStatus e st1 i d2 = (Inr r2, st2)" "sr_status r2 = PROCESSING"
      "findById (orders st2) i = Some (apply_status e d2 (apply_status e d1 ord))"
    using updateOrderStatus_step [OF 1(3), of d2 e] s by auto
  obtain r3 st3 where 3: "updateOrderStatus e st2 i d3 = (Inr r3, st3)" "sr_status r3 = SHIPPED"
      "findById (orders st3) i = Some (apply_status e d3 (apply_status e d2 (apply_status e d1 ord)))"
    using updateOrderStatus_step [OF 2(3), of d3 e] s by auto
  obtain r4 st4 where 4: "updateOrderStatus e st3 i d4 = (Inr r4, st4)" "sr_status r4 = DELIVERED"
      "findById (orders st4) i =
         Some (apply_status e d4 (apply_status e d3 (apply_status e d2 (apply_status e d1 ord))))"
    using updateOrderStatus_step [OF 3(3), of d4 e] s by auto
  have "run_updates e st i ds = (map Inr [r1, r2, r3, r4], st4)"
    using 1 2 3 4 by (simp add: dsq)
  moreover have "map sr_status [r1, r2, r3, r4] = [CONFIRMED, PROCESSING, SHIPPED, DELIVERED]"
    using 1 2 3 4 by simp
  ultimately show ?thesis
    using 4(3) s(4) by (metis apply_status_fields(1))
qed

text \<open>
  C5. The order-status update of \<^verbatim>\<open>OrdersService\<close>. (1) No order with the id: the call
  fails with \<^verbatim>\<open>NotFoundException('Order not found')\<close> and changes nothing. (2) The
  requested status is not in the allowed set of the order's current status: the call
  fails with a \<^verbatim>\<open>BadRequestException\<close> whose message names the current and the
  requested status, and changes nothing. (3) Otherwise the call succeeds, the stored
  order has the requested status and every other order is as before. Consequently
  (4) pending to delivered fails, (5) every update of a delivered or cancelled order
  fails, and (6) confirmed, processing, shipped, delivered, requested in this order on
  a pending order, all succeed and leave the order delivered.
\<close>

theorem updateOrderStatus_contract:
  "(findById (orders st) i = None \<longrightarrow>
      updateOrderStatus e st i dto = (Inl (NotFoundException ''Order not found''), st))
   \<and> (\<forall>ord. findById (orders st) i = Some ord
          \<and> dto_status dto \<notin> set (getValidStatusTransitions (status ord)) \<longrightarrow>
        updateOrderStatus e st i dto =
          (Inl (BadRequestException (''Cannot change status from '' @ status_value (status ord)
             @ '' to '' @ status_value (dto_status dto))), st))
   \<and> (\<forall>ord. findById (orders st) i = Some ord
          \<and> dto_status dto \<in> set (getValidStatusTransitions (status ord)) \<longrightarrow>
        (\<exists>r st' ord'. updateOrderStatus e st i dto = (Inr r, st')
           \<and> sr_status r = dto_status dto
           \<and> findById (orders st') i = Some ord' \<and> status ord' = dto_status dto
           \<and> (\<forall>j. j \<noteq> i \<longrightarrow> findById (orders st') j = findById (orders st) j)))
   \<and> (\<forall>ord. findById (orders st) i = Some ord \<and> status ord = PENDING
          \<and> dto_status dto = DELIVERED \<longrightarrow>
        updateOrderStatus e st i dto =
          (Inl (BadRequestException ''Cannot change status from pending to delivered''), st))
   \<and> (\<forall>ord. findById (orders st) i = Some ord
          \<and> (status ord = DELIVERED \<or> status ord = CANCELLED) \<longrightarrow>
        (\<exists>msg. updateOrderStatus e st i dto = (Inl (BadRequestException msg), st)))
   \<and> (\<forall>ord (ds :: UpdateOrderStatusDto list). findById (orders st) i = Some ord \<and> status ord = PENDING
          \<and> map dto_status ds = [CONFIRMED, PROCESSING, SHIPPED, DELIVERED] \<longrightarrow>
        (\<exists>rs st' ord'. run_updates e st i ds = (map Inr rs, st')
           \<and> map sr_status rs = [CONFIRMED, PROCESSING, SHIPPED, DELIVERED]
           \<and> findById (orders st') i = Some ord' \<and> status ord' = DELIVERED))"
proof (intro conjI allI impI)
  assume "findById (orders st) i = None"
  then show "updateOrderStatus e st i dto = (Inl (NotFoundException ''Order not found''), st)"
    by (rule updateOrderStatus_missing)
next
  fix ord
  assume "findById (orders st) i = Some ord
    \<and> dto_status dto \<notin> set (getValidStatusTransitions (status ord))"
  then show "updateOrderStatus e st i dto =
      (Inl (BadRequestException (''Cannot change status from '' @ status_value (status ord)
         @ '' to '' @ status_value (dto_status dto))), st)"
    by (simp add: updateOrderStatus_invalid)
next
  fix ord
  assume a: "findById (orders st) i = Some ord
    \<and> dto_status dto \<in> set (getValidStatusTransitions (status ord))"
  then obtain r st' where "updateOrderStatus e st i dto = (Inr r, st')"
      "sr_status r = dto_status dto"
      "findById (orders st') i = Some (apply_status e dto ord)"
      "\<forall>j. j \<noteq> i \<longrightarrow> findById (orders st') j = findById (orders st) j"
    using updateOrderStatus_step [of st i ord dto e] by blast
  then show "\<exists>r st' ord'. updateOrderStatus e st i dto = (Inr r, st')
           \<and> sr_status r = dto_status dto
           \<and> findById (orders st') i = Some ord' \<and> status ord' = dto_status dto
           \<and> (\<forall>j. j \<noteq> i \<longrightarrow> findById (orders st') j = findById (orders st) j)"
    by (metis apply_status_fields(1))
next
  fix ord
  assume "findById (orders st) i = Some ord \<and> status ord = PENDING \<and> dto_status dto = DELIVERED"
  then show "updateOrderStatus e st i dto =
      (Inl (BadRequestException ''Cannot change status from pending to delivered''), st)"
    using updateOrderStatus_invalid [of st i ord dto e] by simp
next
  fix ord
  assume "findById (orders st) i = Some ord \<and> (status ord = DELIVERED \<or> status ord = CANCELLED)"
  then show "\<exists>msg. updateOrderStatus e st i dto = (Inl (BadRequestException msg), st)"
    using updateOrderStatus_invalid [of st i ord dto e] by auto
next
  fix ord and ds :: "UpdateOrderStatusDto list"
  assume "findById (orders st) i = Some ord \<and> status ord = PENDING
    \<and> map dto_status ds = [CONFIRMED, PROCESSING, SHIPPED, DELIVERED]"
  then show "\<exists>rs st' ord'. run_updates e st i ds = (map Inr rs, st')
           \<and> map sr_status rs = [CONFIRMED, PROCESSING, SHIPPED, DELIVERED]
           \<and> findById (orders st') i = Some ord' \<and> status ord' = DELIVERED"
    using run_updates_chain [of st i ord ds e] by simp
qed

theorem updateOrderStatus_contract_witness:
  "updateOrderStatus env0 (db_orders [order_ex 1 PENDING None None]) 2
       \<lparr>dto_status = CONFIRMED, dto_statusNote = None\<rparr>
     = (Inl (NotFoundException ''Order not found''), db_orders [order_ex 1 PENDING None None])
   \<and> updateOrderStatus env0 (db_orders [order_ex 1 SHIPPED None None]) 1
       \<lparr>dto_status = PENDING, dto_statusNote = None\<rparr>
     = (Inl (BadRequestException ''Cannot change status from shipped to pending''),
        db_orders [order_ex 1 SHIPPED None None])
   \<and> (\<exists>r st' ord'. updateOrderStatus env0 (db_orders [order_ex 1 SHIPPED None None]) 1
           \<lparr>dto_status = DELIVERED, dto_statusNote = None\<rparr> = (Inr r, st')
         \<and> sr_status r = DELIVERED
         \<and> findById (orders st') 1 = Some ord' \<and> status ord' = DELIVERED)
   \<and> updateOrderStatus env0 (db_orders [order_ex 1 PENDING None None]) 1
       \<lparr>dto_status = DELIVERED, dto_statusNote = None\<rparr>
     = (Inl (BadRequestException ''Cannot change status from pending to delivered''),
        db_orders [order_ex 1 PENDING None None])
   \<and> (\<exists>msg. updateOrderStatus env0 (db_orders [order_ex 1 CANCELLED None None]) 1
           \<lparr>dto_status = PENDING, dto_statusNote = None\<rparr>
         = (Inl (BadRequestException msg), db_orders [order_ex 1 CANCELLED None None]))
   \<and> (\<exists>rs st' ord'. run_updates env0 (db_orders [order_ex 1 PENDING None None]) 1
           [\<lparr>dto_status = CONFIRMED, dto_statusNote = None\<rparr>,
            \<lparr>dto_status = PROCESSING, dto_statusNote = Some ''picked''\<rparr>,
            \<lparr>dto_status = SHIPPED, dto_statusNote = None\<rparr>,
            \<lparr>dto_status = DELIVERED, dto_statusNote = None\<rparr>] = (map Inr rs, st')
         \<and> map sr_status rs = [CONFIRMED, PROCESSING, SHIPPED, DELIVERED]
         \<and> findById (orders st') 1 = Some ord' \<and> status ord' = DELIVERED)"
proof -
  have found: "findById (orders (db_orders [order_ex 1 s None None])) 1 = Some (order_ex 1 s None None)"
    for s by (simp add: db_orders_def findById_def order_ex_def)
  have missing: "findById (orders (db_orders [order_ex 1 PENDING None None])) 2 = None"
    by (simp add: db_orders_def findById_def order_ex_def)
  have st: "status (order_ex 1 s None None) = s" for s
    by (simp add: order_ex_def)
  have c1: "updateOrderStatus env0 (db_orders [order_ex 1 PENDING None None]) 2
       \<lparr>dto_status = CONFIRMED, dto_statusNote = None\<rparr>
     = (Inl (NotFoundException ''Order not found''), db_orders [order_ex 1 PENDING None None])"
    using updateOrderStatus_contract
      [of "db_orders [order_ex 1 PENDING None None]" 2 env0
          "\<lparr>dto_status = CONFIRMED, dto_statusNote = None\<rparr>"] missing
    by simp
  have c2: "updateOrderStatus env0 (db_orders [order_ex 1 SHIPPED None None]) 1
       \<lparr>dto_status = PENDING, dto_statusNote = None\<rparr>
     = (Inl (BadRequestException ''Cannot change status from shipped to pending''),
        db_orders [order_ex 1 SHIPPED None None])"
    using updateOrderStatus_contract
      [of "db_orders [order_ex 1 SHIPPED None None]" 1 env0
          "\<lparr>dto_status = PENDING, dto_statusNote = None\<rparr>"] found [of SHIPPED] st [of SHIPPED]
    by simp
  have c3: "\<exists>r st' ord'. updateOrderStatus env0 (db_orders [order_ex 1 SHIPPED None None]) 1
           \<lparr>dto_status = DELIVERED, dto_statusNote = None\<rparr> = (Inr r, st')
         \<and> sr_status r = DELIVERED
         \<and> findById (orders st') 1 = Some ord' \<and> status ord' = DELIVERED"
    using updateOrderStatus_contract
      [of "db_orders [order_ex 1 SHIPPED None None]" 1 env0
          "\<lparr>dto_status = DELIVERED, dto_statusNote = None\<rparr>"] found [of SHIPPED] st [of SHIPPED]
    by auto
  have c4: "updateOrderStatus env0 (db_orders [order_ex 1 PENDING None None]) 1
       \<lparr>dto_status = DELIVERED, dto_statusNote = None\<rparr>
     = (Inl (BadRequestException ''Cannot change status from pending to delivered''),
        db_orders [order_ex 1 PENDING None None])"
    using updateOrderStatus_contract
      [of "db_orders [order_ex 1 PENDING None None]" 1 env0
          "\<lparr>dto_status = DELIVERED, dto_statusNote = None\<rparr>"] found [of PENDING] st [of PENDING]
    by simp
  have c5: "\<exists>msg. updateOrderStatus env0 (db_orders [order_ex 1 CANCELLED None None]) 1
           \<lparr>dto_status = PENDING, dto_statusNote = None\<rparr>
         = (Inl (BadRequestException msg), db_orders [order_ex 1 CANCELLED None None])"
    using updateOrderStatus_contract
      [of "db_orders [order_ex 1 CANCELLED None None]" 1 env0
          "\<lparr>dto_status = PENDING, dto_statusNote = None\<rparr>"] found [of CANCELLED] st [of CANCELLED]
    by auto
  have c6: "\<exists>rs st' ord'. run_updates env0 (db_orders [order_ex 1 PENDING None None]) 1
           [\<lparr>dto_status = CONFIRMED, dto_statusNote = None\<rparr>,
            \<lparr>dto_status = PROCESSING, dto_statusNote = Some ''picked''\<rparr>,
            \<lparr>dto_status = SHIPPED, dto_statusNote = None\<rparr>,
            \<lparr>dto_status = DELIVERED, dto_statusNote = None\<rparr>] = (map Inr rs, st')
         \<and> map sr_status rs = [CONFIRMED, PROCESSING, SHIPPED, DELIVERED]
         \<and> findById (orders st') 1 = Some ord' \<and> status ord' = DELIVERED"
    by (rule updateOrderStatus_contract [THEN conjunct2, THEN conjunct2, THEN conjunct2,
          THEN conjunct2, THEN conjunct2, rule_format,
          where ord = "order_ex 1 PENDING None None"])
       (simp add: db_orders_def findById_def order_ex_def)
  from c1 c2 c3 c4 c5 c6 show ?thesis by (intro conjI)
qed

lemma str_or_empty: "str_or s [] = (case s of None \<Rightarrow> [] | Some old \<Rightarrow> old)"
  by (simp add: str_or_def split: option.splits)

lemma sendOrderStatusUpdate_message:
  "sendOrderStatusUpdate u \<lparr>sd_orderId = i, sd_status = status_value s, sd_trackingNumber = tn\<rparr> st =
     st\<lparr>effects := effects st @ [SentToUser u ''order_status_update''
        \<lparr>sm_type = ''ORDER_UPDATE'', sm_title = ''Order Status Update'',
         sm_message = (case s of
            PENDING \<Rightarrow> ''Your order has been received and is being processed.''
          | CONFIRMED \<Rightarrow> ''Your order has been confirmed and is being prepared.''
          | PROCESSING \<Rightarrow> ''Your order status: processing''
          | SHIPPED \<Rightarrow> ''Your order has been shipped and is on its way!''
          | DELIVERED \<Rightarrow> ''Your order has been delivered successfully.''
          | CANCELLED \<Rightarrow> ''Your order has been cancelled.''),
         sm_orderId = i, sm_status = status_value s, sm_trackingNumber = tn\<rparr>]\<rparr>"
  by (cases s) (simp_all add: sendOrderStatusUpdate_def emit_def statusMessages_def)





section \<open>Checkout\<close>

subsection \<open>The validation loop\<close>

lemma entry_ok_iff:
  "entry_ok ps ci \<longleftrightarrow> (\<exists>p. ps (ci_productId ci) = Some p \<and> isActive p \<and> ci_quantity ci \<le> stock p)"
  by (auto simp: entry_ok_def unavailable_def insufficient_def split: option.splits)

lemma validate_items_Cons_ok:
  "entry_ok ps ci \<Longrightarrow>
   validate_items ps (ci # rest) (ois, sub, sus) =
     validate_items ps rest
       (ois @ [order_item (the (ps (ci_productId ci))) ci],
        sub + itemPrice (the (ps (ci_productId ci))) * of_int (ci_quantity ci),
        sus @ [new_stock_entry (the (ps (ci_productId ci))) ci])"
  by (auto simp: entry_ok_iff)

lemma validate_items_Cons_bad:
  "\<not> entry_ok ps ci \<Longrightarrow>
   validate_items ps (ci # rest) (ois, sub, sus) = Inl (entry_error ps ci)"
  by (auto simp: entry_ok_iff entry_error_def split: option.splits)

lemma validate_items_ok:
  "list_all (entry_ok ps) cart \<Longrightarrow>
   validate_items ps cart (ois, sub, sus) =
     Inr (ois @ cart_order_items ps cart, sub + cart_sum ps cart, sus @ cart_stock_entries ps cart)"
proof (induction cart arbitrary: ois sub sus)
  case Nil
  then show ?case by (simp add: cart_sum_def cart_order_items_def cart_stock_entries_def)
next
  case (Cons ci cart)
  then show ?case
    by (simp add: validate_items_Cons_ok cart_sum_def cart_order_items_def
        cart_stock_entries_def add.assoc del: validate_items.simps)
qed

lemma validate_items_first_failure:
  "list_all (entry_ok ps) pre \<Longrightarrow> \<not> entry_ok ps ci \<Longrightarrow>
   validate_items ps (pre @ ci # post) (ois, sub, sus) = Inl (entry_error ps ci)"
proof (induction pre arbitrary: ois sub sus)
  case Nil
  then show ?case by (simp add: validate_items_Cons_bad del: validate_items.simps)
next
  case (Cons c pre)
  then show ?case
    by (simp add: validate_items_Cons_ok del: validate_items.simps)
qed

lemma not_all_ok_split:
  "\<not> list_all P xs \<Longrightarrow> \<exists>pre x post. xs = pre @ x # post \<and> list_all P pre \<and> \<not> P x"
proof (induction xs)
  case Nil
  then show ?case by simp
next
  case (Cons a xs)
  show ?case
  proof (cases "P a")
    case True
    with Cons obtain pre x post where "xs = pre @ x # post" "list_all P pre" "\<not> P x"
      by auto
    with True have "a # xs = (a # pre) @ x # post \<and> list_all P (a # pre) \<and> \<not> P x"
      by simp
    then show ?thesis by blast
  next
    case False
    then have "a # xs = [] @ a # xs \<and> list_all P [] \<and> \<not> P a" by simp
    then show ?thesis by blast
  qed
qed

subsection \<open>Failing checkouts\<close>

lemma createOrderFromCart_empty:
  "carts st uid = None \<or> carts st uid = Some [] \<Longrightarrow>
   createOrderFromCart e st uid dto =
     (Inl (BadRequestException ''Cart is empty. Cannot create order.''), st)"
  by (auto simp: createOrderFromCart_def)

lemma createOrderFromCart_first_failure:
  assumes "carts st uid = Some (pre @ ci # post)"
    and "list_all (entry_ok (products st)) pre"
    and "\<not> entry_ok (products st) ci"
  shows "createOrderFromCart e st uid dto = (Inl (entry_error (products st) ci), st)"
  using assms by (simp add: createOrderFromCart_def validate_items_first_failure)

text \<open>
  C2. A checkout whose precondition fails throws the error of the first check that
  fails and leaves the database as it found it: no order, no stock write, no change of
  the cart, no notification. (1) No cart, or a cart without entries. (2) The first entry
  that fails a check refers to a product that no longer exists, or (3) to an inactive
  product, or (4) asks for more than the stock of its active product. (5) Whenever some
  entry of the cart is unavailable or asks for more than the stock, the checkout fails
  with a \<^verbatim>\<open>BadRequestException\<close> and changes nothing.
\<close>

theorem createOrderFromCart_failure_no_mutation:
  "(carts st uid = None \<or> carts st uid = Some [] \<longrightarrow>
      createOrderFromCart e st uid dto =
        (Inl (BadRequestException ''Cart is empty. Cannot create order.''), st))
   \<and> (\<forall>pre ci post. carts st uid = Some (pre @ ci # post)
          \<and> list_all (entry_ok (products st)) pre
          \<and> products st (ci_productId ci) = None \<longrightarrow>
        createOrderFromCart e st uid dto =
          (Inl (BadRequestException ''Product Unknown is no longer available''), st))
   \<and> (\<forall>pre ci post p. carts st uid = Some (pre @ ci # post)
          \<and> list_all (entry_ok (products st)) pre
          \<and> products st (ci_productId ci) = Some p \<and> \<not> isActive p \<longrightarrow>
        createOrderFromCart e st uid dto =
          (Inl (BadRequestException
             (''Product '' @ (if p_name p = [] then ''Unknown'' else p_name p)
                @ '' is no longer available'')), st))
   \<and> (\<forall>pre ci post p. carts st uid = Some (pre @ ci # post)
          \<and> list_all (entry_ok (products st)) pre
          \<and> products st (ci_productId ci) = Some p \<and> isActive p
          \<and> stock p < ci_quantity ci \<longrightarrow>
        createOrderFromCart e st uid dto =
          (Inl (BadRequestException
             (''Insufficient stock for '' @ p_name p @ ''. Available: '' @ show_int (stock p)
                @ '', Requested: '' @ show_int (ci_quantity ci))), st))
   \<and> (\<forall>cart ci. carts st uid = Some cart \<and> ci \<in> set cart
          \<and> (unavailable (products st) ci \<or> insufficient (products st) ci) \<longrightarrow>
        (\<exists>msg. createOrderFromCart e st uid dto = (Inl (BadRequestException msg), st)))"
proof (intro conjI allI impI)
  assume "carts st uid = None \<or> carts st uid = Some []"
  then show "createOrderFromCart e st uid dto =
      (Inl (BadRequestException ''Cart is empty. Cannot create order.''), st)"
    by (rule createOrderFromCart_empty)
next
  fix pre ci post
  assume a: "carts st uid = Some (pre @ ci # post) \<and> list_all (entry_ok (products st)) pre
    \<and> products st (ci_productId ci) = None"
  then have "\<not> entry_ok (products st) ci" by (simp add: entry_ok_iff)
  with a have "createOrderFromCart e st uid dto = (Inl (entry_error (products st) ci), st)"
    by (simp add: createOrderFromCart_first_failure)
  with a show "createOrderFromCart e st uid dto =
      (Inl (BadRequestException ''Product Unknown is no longer available''), st)"
    by (simp add: entry_error_def)
next
  fix pre ci post p
  assume a: "carts st uid = Some (pre @ ci # post) \<and> list_all (entry_ok (products st)) pre
    \<and> products st (ci_productId ci) = Some p \<and> \<not> isActive p"
  then have "\<not> entry_ok (products st) ci" by (simp add: entry_ok_iff)
  with a have "createOrderFromCart e st uid dto = (Inl (entry_error (products st) ci), st)"
    by (simp add: createOrderFromCart_first_failure)
  with a show "createOrderFromCart e st uid dto =
      (Inl (BadRequestException
         (''Product '' @ (if p_name p = [] then ''Unknown'' else p_name p)
            @ '' is no longer available'')), st)"
    by (simp add: entry_error_def)
next
  fix pre ci post p
  assume a: "carts st uid = Some (pre @ ci # post) \<and> list_all (entry_ok (products st)) pre
    \<and> products st (ci_productId ci) = Some p \<and> isActive p \<and> stock p < ci_quantity ci"
  then have "\<not> entry_ok (products st) ci" by (simp add: entry_ok_iff)
  with a have "createOrderFromCart e st uid dto = (Inl (entry_error (products st) ci), st)"
    by (simp add: createOrderFromCart_first_failure)
  with a show "createOrderFromCart e st uid dto =
      (Inl (BadRequestException
         (''Insufficient stock for '' @ p_name p @ ''. Available: '' @ show_int (stock p)
            @ '', Requested: '' @ show_int (ci_quantity ci))), st)"
    by (simp add: entry_error_def)
next
  fix cart ci
  assume a: "carts st uid = Some cart \<and> ci \<in> set cart
    \<and> (unavailable (products st) ci \<or> insufficient (products st) ci)"
  then have "\<not> entry_ok (products st) ci" by (auto simp: entry_ok_def)
  with a have "\<not> list_all (entry_ok (products st)) cart"
    by (auto simp: list_all_iff)
  then obtain pre x post where s: "cart = pre @ x # post" "list_all (entry_ok (products st)) pre"
      "\<not> entry_ok (products st) x"
    using not_all_ok_split by blast
  with a have "createOrderFromCart e st uid dto = (Inl (entry_error (products st) x), st)"
    by (simp add: createOrderFromCart_first_failure)
  moreover have "\<exists>msg. entry_error (products st) x = BadRequestException msg"
    by (simp add: entry_error_def split: option.splits)
  ultimately show "\<exists>msg. createOrderFromCart e st uid dto = (Inl (BadRequestException msg), st)"
    by auto
qed

theorem createOrderFromCart_failure_no_mutation_witness:
  "createOrderFromCart env0 (db_shop shop []) 5 dto0 =
     (Inl (BadRequestException ''Cart is empty. Cannot create order.''), db_shop shop [])
   \<and> createOrderFromCart env0 (db_shop shop [cart_item 11 1, cart_item 13 1]) 5 dto0 =
     (Inl (BadRequestException ''Product Unknown is no longer available''),
      db_shop shop [cart_item 11 1, cart_item 13 1])
   \<and> createOrderFromCart env0 (db_shop shop [cart_item 11 1, cart_item 12 1]) 5 dto0 =
     (Inl (BadRequestException ''Product Scarf is no longer available''),
      db_shop shop [cart_item 11 1, cart_item 12 1])
   \<and> createOrderFromCart env0 (db_shop shop [cart_item 11 1, cart_item 10 5]) 5 dto0 =
     (Inl (BadRequestException ''Insufficient stock for Shirt. Available: 3, Requested: 5''),
      db_shop shop [cart_item 11 1, cart_item 10 5])
   \<and> (\<exists>msg. createOrderFromCart env0 (db_shop shop [cart_item 10 5, cart_item 11 1]) 5 dto0 =
     (Inl (BadRequestException msg), db_shop shop [cart_item 10 5, cart_item 11 1]))"
proof -
  have ok11: "entry_ok (products (db_shop shop cart)) (cart_item 11 1)" for cart
    by (simp add: entry_ok_iff db_shop_def shop_def cart_item_def prodB_def)
  have c1: "createOrderFromCart env0 (db_shop shop []) 5 dto0 =
     (Inl (BadRequestException ''Cart is empty. Cannot create order.''), db_shop shop [])"
    by (rule createOrderFromCart_failure_no_mutation [THEN conjunct1, rule_format])
       (simp add: db_shop_def)
  have c2: "createOrderFromCart env0 (db_shop shop [cart_item 11 1, cart_item 13 1]) 5 dto0 =
     (Inl (BadRequestException ''Product Unknown is no longer available''),
      db_shop shop [cart_item 11 1, cart_item 13 1])"
    by (rule createOrderFromCart_failure_no_mutation
          [THEN conjunct2, THEN conjunct1, rule_format,
           where pre = "[cart_item 11 1]" and ci = "cart_item 13 1" and post = "[]"])
       (simp add: ok11, simp add: db_shop_def shop_def cart_item_def)
  have c3: "createOrderFromCart env0 (db_shop shop [cart_item 11 1, cart_item 12 1]) 5 dto0 =
     (Inl (BadRequestException ''Product Scarf is no longer available''),
      db_shop shop [cart_item 11 1, cart_item 12 1])"
    using createOrderFromCart_failure_no_mutation
          [THEN conjunct2, THEN conjunct2, THEN conjunct1, rule_format,
           where pre = "[cart_item 11 1]" and ci = "cart_item 12 1" and post = "[]"
             and p = prodGone and st = "db_shop shop [cart_item 11 1, cart_item 12 1]"
             and uid = 5 and e = env0 and dto = dto0]
          ok11 [of "[cart_item 11 1, cart_item 12 1]"]
    by (simp add: db_shop_def shop_def cart_item_def prodGone_def)
  have c4: "createOrderFromCart env0 (db_shop shop [cart_item 11 1, cart_item 10 5]) 5 dto0 =
     (Inl (BadRequestException ''Insufficient stock for Shirt. Available: 3, Requested: 5''),
      db_shop shop [cart_item 11 1, cart_item 10 5])"
    using createOrderFromCart_failure_no_mutation
          [THEN conjunct2, THEN conjunct2, THEN conjunct2, THEN conjunct1, rule_format,
           where pre = "[cart_item 11 1]" and ci = "cart_item 10 5" and post = "[]"
             and p = prodA and st = "db_shop shop [cart_item 11 1, cart_item 10 5]"
             and uid = 5 and e = env0 and dto = dto0]
          ok11 [of "[cart_item 11 1, cart_item 10 5]"]
    by (simp add: db_shop_def shop_def cart_item_def prodA_def show_int_def digit_char_def)
  have c5: "\<exists>msg. createOrderFromCart env0 (db_shop shop [cart_item 10 5, cart_item 11 1]) 5 dto0 =
     (Inl (BadRequestException msg), db_shop shop [cart_item 10 5, cart_item 11 1])"
    by (rule createOrderFromCart_failure_no_mutation
          [THEN conjunct2, THEN conjunct2, THEN conjunct2, THEN conjunct2, rule_format,
           where ci = "cart_item 10 5" and cart = "[cart_item 10 5, cart_item 11 1]"])
       (simp add: db_shop_def shop_def cart_item_def prodA_def insufficient_def)
  from c1 c2 c3 c4 c5 show ?thesis by (intro conjI)
qed

subsection \<open>What the writes leave behind\<close>

lemma emit_fields [simp]:
  "carts (emit x st) = carts st"
  "products (emit x st) = products st"
  "orders (emit x st) = orders st"
  "users (emit x st) = users st"
  "effects (emit x st) = effects st @ [x]"
  by (simp_all add: emit_def)

lemma set_stock_fields [simp]:
  "carts (set_stock u st) = carts st"
  "orders (set_stock u st) = orders st"
  "users (set_stock u st) = users st"
  "effects (set_stock u st) = effects st @ [StockWritten (su_productId u) (su_newStock u)]"
  by (simp_all add: set_stock_def split: option.splits)

lemma set_stock_products:
  "products (set_stock u st) pid =
     (if pid = su_productId u
      then map_option (\<lambda>p. p\<lparr>stock := su_newStock u\<rparr>) (products st pid)
      else products st pid)"
  by (simp add: set_stock_def split: option.splits)

lemma update_stock_fields [simp]:
  "carts (update_stock us st) = carts st"
  "orders (update_stock us st) = orders st"
  "users (update_stock us st) = users st"
  "effects (update_stock us st) =
     effects st @ map (\<lambda>u. StockWritten (su_productId u) (su_newStock u)) us"
  by (induction us arbitrary: st) simp_all

lemma find_app:
  "find P (xs @ ys) = (case find P xs of None \<Rightarrow> find P ys | Some x \<Rightarrow> Some x)"
  by (induction xs) simp_all

text \<open>The stock a product is left with: the value of the last entry written for it.\<close>

lemma update_stock_products:
  "products (update_stock us st) pid =
     (case find (\<lambda>u. su_productId u = pid) (rev us) of
        None \<Rightarrow> products st pid
      | Some u \<Rightarrow> map_option (\<lambda>p. p\<lparr>stock := su_newStock u\<rparr>) (products st pid))"
proof (induction us arbitrary: st)
  case Nil
  then show ?case by simp
next
  case (Cons u us)
  show ?case
    by (cases "find (\<lambda>u. su_productId u = pid) (rev us)")
       (simp_all add: Cons.IH find_app set_stock_products option.map_comp comp_def)
qed

lemma clear_cart_fields [simp]:
  "products (clear_cart uid st) = products st"
  "orders (clear_cart uid st) = orders st"
  "users (clear_cart uid st) = users st"
  "effects (clear_cart uid st) = effects st @ [CartCleared uid]"
  by (simp_all add: clear_cart_def split: option.splits)

lemma clear_cart_carts:
  "carts (clear_cart uid st) u =
     (if u = uid then map_option (\<lambda>_. []) (carts st uid) else carts st u)"
  by (simp add: clear_cart_def split: option.splits)

lemma notifyNewOrder_fields [simp]:
  "carts (notifyNewOrder d st) = carts st"
  "products (notifyNewOrder d st) = products st"
  "orders (notifyNewOrder d st) = orders st"
  "users (notifyNewOrder d st) = users st"
  by (simp_all add: notifyNewOrder_def)

subsection \<open>Successful checkouts\<close>

text \<open>The database a checkout that passes validation leaves behind.\<close>

lemma place_order_run:
  assumes "saveError e = None"
    and "newOrderId e \<notin> order_id ` set (orders st)"
    and "order_id ord = newOrderId e" and "userId ord = uid"
  shows "place_order e st uid ord sub sus =
     (Inr (order_view_of ord),
      clear_cart uid (update_stock sus
        ((case users st uid of
            None \<Rightarrow> (\<lambda>s. s)
          | Some user \<Rightarrow>
              notifyNewOrder
                \<lparr>on_orderId = order_id ord, on_userId = uid,
                 on_customerName = firstName user @ '' '' @ lastName user,
                 on_totalAmount = Math_round (sub + sub * (1 / 10)),
                 on_itemCount = length (items ord),
                 on_status = status_value PENDING\<rparr>)
           (emit (OrderSaved ord) (st\<lparr>orders := orders st @ [ord]\<rparr>)))))"
proof -
  have nf: "find (\<lambda>x. order_id x = newOrderId e \<and> userId x = uid) (orders st) = None"
    using assms(2) by (force simp: find_None_iff image_iff)
  show ?thesis
    using assms(1,3,4) nf
    by (cases "users st uid")
       (simp_all add: place_order_def Let_def getOrderById_def find_app)
qed

lemma new_order_fields [simp]:
  "order_id (new_order e uid dto ois sub) = newOrderId e"
  "userId (new_order e uid dto ois sub) = uid"
  "items (new_order e uid dto ois sub) = ois"
  "status (new_order e uid dto ois sub) = PENDING"
  "subtotal (new_order e uid dto ois sub) = toFixed2 sub"
  "tax (new_order e uid dto ois sub) = toFixed2 (sub * (1 / 10))"
  "total (new_order e uid dto ois sub) = toFixed2 (sub + sub * (1 / 10))"
  "shippingAddress (new_order e uid dto ois sub) =
     (case dto_shippingAddress dto of None \<Rightarrow> demo_address | Some a \<Rightarrow> a)"
  by (simp_all add: new_order_def Let_def)

lemma createOrderFromCart_run:
  assumes "carts st uid = Some cart" and "cart \<noteq> []"
    and "list_all (entry_ok (products st)) cart"
    and "saveError e = None"
    and "newOrderId e \<notin> order_id ` set (orders st)"
  shows "createOrderFromCart e st uid dto =
     place_order e st uid
       (new_order e uid dto (cart_order_items (products st) cart) (cart_sum (products st) cart))
       (cart_sum (products st) cart) (cart_stock_entries (products st) cart)"
  using assms by (simp add: createOrderFromCart_def validate_items_ok)

subsection \<open>The state after a successful checkout\<close>

lemma order_item_fields [simp]:
  "oi_productId (order_item p ci) = ci_productId ci"
  "oi_price (order_item p ci) = itemPrice p"
  "oi_quantity (order_item p ci) = ci_quantity ci"
  "oi_productName (order_item p ci) = p_name p"
  "oi_size (order_item p ci) = ci_size ci"
  "oi_color (order_item p ci) = ci_color ci"
  by (simp_all add: order_item_def)

lemma new_stock_entry_fields [simp]:
  "su_productId (new_stock_entry p ci) = ci_productId ci"
  "su_newStock (new_stock_entry p ci) = stock p - ci_quantity ci"
  by (simp_all add: new_stock_entry_def)

lemma cart_order_items_length [simp]: "length (cart_order_items ps cart) = length cart"
  by (simp add: cart_order_items_def)

lemma cart_order_items_nth:
  "k < length cart \<Longrightarrow>
   cart_order_items ps cart ! k = order_item (the (ps (ci_productId (cart ! k)))) (cart ! k)"
  by (simp add: cart_order_items_def)

lemma cart_order_items_sum:
  "sum_list (map (\<lambda>it. oi_price it * of_int (oi_quantity it)) (cart_order_items ps cart))
     = cart_sum ps cart"
  by (simp add: cart_order_items_def cart_sum_def comp_def)

text \<open>The last stock entry written for a product: with one entry per product, the entry
  of its cart item.\<close>

lemma find_stock_entry_absent:
  "pid \<notin> ci_productId ` set cart \<Longrightarrow>
   find (\<lambda>u. su_productId u = pid) (rev (cart_stock_entries ps cart)) = None"
  by (auto simp: find_None_iff cart_stock_entries_def)

lemma find_stock_entry_distinct:
  "distinct (map ci_productId cart) \<Longrightarrow> ci \<in> set cart \<Longrightarrow>
   find (\<lambda>u. su_productId u = ci_productId ci) (rev (cart_stock_entries ps cart))
     = Some (new_stock_entry (the (ps (ci_productId ci))) ci)"
proof (induction cart)
  case Nil
  then show ?case by simp
next
  case (Cons c cart)
  show ?case
  proof (cases "ci \<in> set cart")
    case True
    with Cons have "find (\<lambda>u. su_productId u = ci_productId ci) (rev (cart_stock_entries ps cart))
      = Some (new_stock_entry (the (ps (ci_productId ci))) ci)"
      by simp
    then show ?thesis
      by (simp add: cart_stock_entries_def find_app)
  next
    case False
    with Cons.prems have eq: "ci = c" and "ci_productId c \<notin> ci_productId ` set cart"
      by auto
    then have "find (\<lambda>u. su_productId u = ci_productId c) (rev (cart_stock_entries ps cart)) = None"
      by (rule_tac find_stock_entry_absent)
    then show ?thesis
      using eq by (simp add: cart_stock_entries_def find_app)
  qed
qed

lemma createOrderFromCart_success:
  assumes "carts st uid = Some cart" and "cart \<noteq> []"
    and "list_all (entry_ok (products st)) cart"
    and "saveError e = None"
    and "newOrderId e \<notin> order_id ` set (orders st)"
  shows "createOrderFromCart e st uid dto =
     (Inr (order_view_of
        (new_order e uid dto (cart_order_items (products st) cart) (cart_sum (products st) cart))),
      after_checkout e st uid
        (new_order e uid dto (cart_order_items (products st) cart) (cart_sum (products st) cart))
        cart)"
  unfolding after_checkout_def
  using assms by (simp add: createOrderFromCart_run place_order_run)

lemma after_checkout_orders: "orders (after_checkout e st uid ord cart) = orders st @ [ord]"
  by (cases "users st uid") (simp_all add: after_checkout_def)

lemma after_checkout_carts:
  "carts st uid = Some cart' \<Longrightarrow> carts (after_checkout e st uid ord cart) uid = Some []"
  by (cases "users st uid") (simp_all add: after_checkout_def clear_cart_carts)

lemma after_checkout_products:
  "products (after_checkout e st uid ord cart) pid =
     (case find (\<lambda>u. su_productId u = pid) (rev (cart_stock_entries (products st) cart)) of
        None \<Rightarrow> products st pid
      | Some u \<Rightarrow> map_option (\<lambda>p. p\<lparr>stock := su_newStock u\<rparr>) (products st pid))"
  by (cases "users st uid")
     (simp_all add: after_checkout_def update_stock_products split: option.splits)

lemma after_checkout_effects:
  "effects (after_checkout e st uid ord cart) =
     effects st @ [OrderSaved ord]
       @ (case users st uid of
            None \<Rightarrow> []
          | Some user \<Rightarrow>
              [SentToAdmins ''new_order_notification''
                 \<lparr>nm_type = ''NEW_ORDER'', nm_title = ''New Order Received'',
                  nm_message = ''New order from '' @ firstName user @ '' '' @ lastName user @ '' - $''
                     @ show_int (Math_round (cart_sum (products st) cart
                                    + cart_sum (products st) cart * (1 / 10))),
                  nm_data =
                    \<lparr>on_orderId = order_id ord, on_userId = uid,
                     on_customerName = firstName user @ '' '' @ lastName user,
                     on_totalAmount = Math_round (cart_sum (products st) cart
                                    + cart_sum (products st) cart * (1 / 10)),
                     on_itemCount = length (items ord),
                     on_status = ''pending''\<rparr>\<rparr>])
       @ map (\<lambda>ci. StockWritten (ci_productId ci)
                (stock (the (products st (ci_productId ci))) - ci_quantity ci)) cart
       @ [CartCleared uid]"
  by (cases "users st uid")
     (simp_all add: after_checkout_def notifyNewOrder_def cart_stock_entries_def comp_def)


lemma toFixed2_examples:
  "toFixed2 50 = 50" "toFixed2 5 = 5"
  by (simp_all add: toFixed2_def floor_eq_iff)

lemma padStart3_1: "padStart 3 c [x] = [c, c, x]"
  by (simp add: padStart_def eval_nat_numeral)



text \<open>
  A product in two entries of one cart (two sizes of the Shirt, stock 3, quantities 2 and
  1): both entries pass the stock check against the stock read with the cart, and the
  two stock writes are 1 and then 2, so three Shirts are sold and the stock ends at 2.
\<close>

lemma createOrderFromCart_repeated_product:
  "map_option stock
     (products (snd (createOrderFromCart env0
        (db_shop shop [(cart_item 10 2)\<lparr>ci_size := Some ''M''\<rparr>,
                       (cart_item 10 1)\<lparr>ci_size := Some ''L''\<rparr>]) 5 dto0)) 10) = Some 2
   \<and> [e \<leftarrow> effects (snd (createOrderFromCart env0
        (db_shop shop [(cart_item 10 2)\<lparr>ci_size := Some ''M''\<rparr>,
                       (cart_item 10 1)\<lparr>ci_size := Some ''L''\<rparr>]) 5 dto0)).
        e = StockWritten 10 1 \<or> e = StockWritten 10 2]
       = [StockWritten 10 1, StockWritten 10 2]"
proof -
  let ?cart = "[(cart_item 10 2)\<lparr>ci_size := Some ''M''\<rparr>, (cart_item 10 1)\<lparr>ci_size := Some ''L''\<rparr>]"
  let ?st = "db_shop shop ?cart"
  have h: "carts ?st 5 = Some ?cart" "?cart \<noteq> []"
    "list_all (entry_ok (products ?st)) ?cart" "saveError env0 = None"
    "newOrderId env0 \<notin> order_id ` set (orders ?st)"
    by (simp_all add: entry_ok_iff db_shop_def shop_def cart_item_def prodA_def env0_def)
  have s: "snd (createOrderFromCart env0 ?st 5 dto0) =
      after_checkout env0 ?st 5
        (new_order env0 5 dto0 (cart_order_items (products ?st) ?cart)
           (cart_sum (products ?st) ?cart)) ?cart"
    by (simp add: createOrderFromCart_success [OF h])
  show ?thesis
    unfolding s after_checkout_products after_checkout_effects
    by (simp add: db_shop_def shop_def cart_item_def prodA_def cart_stock_entries_def
        new_stock_entry_def notifyNewOrder_def)
qed

subsection \<open>Rounding to two decimals\<close>

lemma toFixed2_minus: "toFixed2 (- x) = - toFixed2 x"
  by (cases "x = 0") (auto simp: toFixed2_def floor_eq_iff)

lemma toFixed2_cents: "\<exists>n :: int. toFixed2 x = of_int n / 100"
proof (cases "x < 0")
  case True
  then have "toFixed2 x = of_int (- \<lfloor>(- x) * 100 + 1 / 2\<rfloor>) / 100"
    by (simp add: toFixed2_def)
  then show ?thesis by blast
next
  case False
  then have "toFixed2 x = of_int \<lfloor>x * 100 + 1 / 2\<rfloor> / 100"
    by (simp add: toFixed2_def)
  then show ?thesis by blast
qed

lemma toFixed2_near_nonneg:
  assumes "0 \<le> x"
  shows "\<bar>toFixed2 x - x\<bar> \<le> 1 / 200"
proof -
  let ?n = "\<lfloor>x * 100 + 1 / 2\<rfloor>"
  have "of_int ?n \<le> x * 100 + 1 / 2" "x * 100 + 1 / 2 < of_int ?n + 1"
    by linarith+
  then have "\<bar>of_int ?n / 100 - x\<bar> \<le> 1 / 200"
    by linarith
  with assms show ?thesis by (simp add: toFixed2_def)
qed

lemma toFixed2_near: "\<bar>toFixed2 x - x\<bar> \<le> 1 / 200"
proof (cases "0 \<le> x")
  case True
  then show ?thesis by (rule toFixed2_near_nonneg)
next
  case False
  then have "\<bar>toFixed2 (- x) - (- x)\<bar> \<le> 1 / 200"
    by (intro toFixed2_near_nonneg) simp
  then show ?thesis unfolding toFixed2_minus by linarith
qed

lemma toFixed2_add_nonneg:
  assumes "0 \<le> s" and "0 \<le> t"
  shows "\<bar>toFixed2 (s + t) - (toFixed2 s + toFixed2 t)\<bar> \<le> 1 / 100"
proof -
  let ?a = "\<lfloor>s * 100 + 1 / 2\<rfloor>" and ?b = "\<lfloor>t * 100 + 1 / 2\<rfloor>"
    and ?c = "\<lfloor>(s + t) * 100 + 1 / 2\<rfloor>"
  define A B C :: rat where "A = of_int ?a" and "B = of_int ?b" and "C = of_int ?c"
  have a: "A \<le> s * 100 + 1 / 2" "s * 100 + 1 / 2 < A + 1"
    unfolding A_def by linarith+
  have b: "B \<le> t * 100 + 1 / 2" "t * 100 + 1 / 2 < B + 1"
    unfolding B_def by linarith+
  have "of_int ?c \<le> (s + t) * 100 + 1 / 2" "(s + t) * 100 + 1 / 2 < of_int ?c + 1"
    by linarith+
  then have c: "C \<le> s * 100 + t * 100 + 1 / 2" "s * 100 + t * 100 + 1 / 2 < C + 1"
    unfolding C_def by (simp_all add: algebra_simps)
  have "C < A + B + 2" using a b c by linarith
  then have "(of_int ?c :: rat) < of_int (?a + ?b + 2)" by (simp add: A_def B_def C_def)
  then have up: "?c \<le> ?a + ?b + 1" by (simp only: of_int_less_iff)
  have "A + B - 2 < C" using a b c by linarith
  then have "(of_int (?a + ?b - 2) :: rat) < of_int ?c" by (simp add: A_def B_def C_def)
  then have lo: "?a + ?b - 1 \<le> ?c" by (simp only: of_int_less_iff)
  have "(of_int ?c :: rat) \<le> of_int (?a + ?b + 1)" "(of_int (?a + ?b - 1) :: rat) \<le> of_int ?c"
    using up lo by (simp_all only: of_int_le_iff)
  then have "C \<le> A + B + 1" "A + B - 1 \<le> C"
    by (simp_all add: A_def B_def C_def)
  then have "\<bar>C / 100 - (A / 100 + B / 100)\<bar> \<le> 1 / 100"
    by linarith
  then have "\<bar>of_int ?c / 100 - (of_int ?a / 100 + of_int ?b / 100 :: rat)\<bar> \<le> 1 / 100"
    by (simp only: A_def B_def C_def)
  with assms show ?thesis by (simp add: toFixed2_def)
qed

text \<open>The stored total against the sum of the stored subtotal and tax.\<close>

lemma toFixed2_total_near:
  "\<bar>toFixed2 (S + S * (1 / 10)) - (toFixed2 S + toFixed2 (S * (1 / 10)))\<bar> \<le> 1 / 100"
proof (cases "0 \<le> S")
  case True
  then show ?thesis by (intro toFixed2_add_nonneg) simp_all
next
  case False
  then have "\<bar>toFixed2 (- S + - S * (1 / 10)) - (toFixed2 (- S) + toFixed2 (- S * (1 / 10)))\<bar>
      \<le> 1 / 100"
    by (intro toFixed2_add_nonneg) simp_all
  moreover have "- S + - S * (1 / 10) = - (S + S * (1 / 10))" "- S * (1 / 10) = - (S * (1 / 10))"
    by simp_all
  ultimately have "\<bar>- toFixed2 (S + S * (1 / 10)) - (- toFixed2 S + - toFixed2 (S * (1 / 10)))\<bar>
      \<le> 1 / 100"
    by (simp only: toFixed2_minus)
  then show ?thesis by linarith
qed

lemma toFixed2_whole_cents: "toFixed2 (of_int n / 100) = of_int n / 100"
proof (cases "(0::int) \<le> n")
  case True
  then show ?thesis by (simp add: toFixed2_def floor_eq_iff)
next
  case False
  then have "toFixed2 (of_int (- n) / 100) = of_int (- n) / 100"
    by (simp add: toFixed2_def floor_eq_iff)
  then have "toFixed2 (- (of_int n / 100)) = - (of_int n / 100)" by simp
  then show ?thesis by (simp only: toFixed2_minus neg_equal_iff_equal)
qed

lemma toFixed2_add_cents_nonneg:
  assumes "0 \<le> t" and "(0::int) \<le> n"
  shows "toFixed2 (of_int n / 100 + t) = of_int n / 100 + toFixed2 t"
proof -
  have "\<lfloor>(of_int n / 100 + t) * 100 + 1 / 2\<rfloor> = \<lfloor>of_int n + (t * 100 + 1 / 2)\<rfloor>"
    by (simp add: algebra_simps)
  also have "\<dots> = n + \<lfloor>t * 100 + 1 / 2\<rfloor>"
    by (rule int_add_floor [symmetric])
  finally have "\<lfloor>(of_int n / 100 + t) * 100 + 1 / 2\<rfloor> = n + \<lfloor>t * 100 + 1 / 2\<rfloor>" .
  moreover have "0 \<le> of_int n / 100 + t" using assms by simp
  ultimately show ?thesis
    using assms by (simp add: toFixed2_def add_divide_distrib)
qed

lemma toFixed2_total_whole_cents:
  assumes "S = of_int n / 100"
  shows "toFixed2 (S + S * (1 / 10)) = toFixed2 S + toFixed2 (S * (1 / 10))"
proof (cases "(0::int) \<le> n")
  case True
  then have "toFixed2 (of_int n / 100 + of_int n / 100 * (1 / 10))
      = of_int n / 100 + toFixed2 (of_int n / 100 * (1 / 10))"
    by (intro toFixed2_add_cents_nonneg) simp_all
  then show ?thesis by (simp add: assms toFixed2_whole_cents)
next
  case False
  then have "toFixed2 (of_int (- n) / 100 + of_int (- n) / 100 * (1 / 10))
      = of_int (- n) / 100 + toFixed2 (of_int (- n) / 100 * (1 / 10))"
    by (intro toFixed2_add_cents_nonneg) simp_all
  moreover have "of_int (- n) / 100 + of_int (- n) / 100 * (1 / 10) = - (S + S * (1 / 10))"
      "of_int (- n) / 100 * (1 / 10) = - (S * (1 / 10))" "of_int (- n) / 100 = - S"
    by (simp_all add: assms)
  ultimately have "toFixed2 (- (S + S * (1 / 10))) = - S + toFixed2 (- (S * (1 / 10)))"
    by simp
  then have "- toFixed2 (S + S * (1 / 10)) = - S + - toFixed2 (S * (1 / 10))"
    by (simp only: toFixed2_minus)
  then have "toFixed2 (S + S * (1 / 10)) = S + toFixed2 (S * (1 / 10))"
    by linarith
  moreover have "toFixed2 S = S" unfolding assms by (rule toFixed2_whole_cents)
  ultimately show ?thesis by simp
qed


text \<open>The scenario of two Shirts at 20 and one Cap at 10, evaluated.\<close>

lemma example_checkout_view:
  "fst (createOrderFromCart env0 (db_shop shop [cart_item 10 2, cart_item 11 1]) 5 dto0)
     = Inr \<lparr>ov_id = 100, ov_orderNumber = ''ORD-1700000000000-007'', ov_status = PENDING,
            ov_items =
              [\<lparr>oi_productId = 10, oi_productName = ''Shirt'', oi_productImage = ''shirt.png'',
                oi_price = 20, oi_quantity = 2, oi_size = None, oi_color = None\<rparr>,
               \<lparr>oi_productId = 11, oi_productName = ''Cap'', oi_productImage = [],
                oi_price = 10, oi_quantity = 1, oi_size = None, oi_color = None\<rparr>],
            ov_subtotal = 50, ov_tax = 5, ov_total = 55,
            ov_shippingAddress = demo_address,
            ov_orderNotes = Some ''Order placed via demo cart''\<rparr>"
proof -
  let ?cart = "[cart_item 10 2, cart_item 11 1]"
  let ?st = "db_shop shop ?cart"
  have v: "validate_items (products ?st) ?cart ([], 0, []) =
      Inr ([order_item prodA (cart_item 10 2), order_item prodB (cart_item 11 1)], 50,
           [new_stock_entry prodA (cart_item 10 2), new_stock_entry prodB (cart_item 11 1)])"
    by (simp add: db_shop_def shop_def cart_item_def prodA_def prodB_def itemPrice_def)
  have n: "generateOrderNumber env0 = ''ORD-1700000000000-007''"
    by (simp add: generateOrderNumber_def env0_def padStart3_1 digit_char_def)
  have f: "toFixed2 50 = 50" "toFixed2 (50 * (1 / 10)) = 5" "toFixed2 (50 + 50 * (1 / 10)) = 55"
    by (simp_all add: toFixed2_def floor_eq_iff)
  have "fst (createOrderFromCart env0 ?st 5 dto0) =
      Inr (order_view_of (new_order env0 5 dto0
             [order_item prodA (cart_item 10 2), order_item prodB (cart_item 11 1)] 50))"
    using v
    by (simp add: createOrderFromCart_def place_order_def Let_def getOrderById_def
        db_shop_def env0_def alice_def)
  then show ?thesis
    using n f
    by (simp add: order_view_of_def new_order_def Let_def order_item_def cart_item_def
        prodA_def prodB_def itemPrice_def dto0_def str_or_def env0_def)
qed

lemma example_checkout_hyps:
  "carts (db_shop shop [cart_item 10 2, cart_item 11 1]) 5 = Some [cart_item 10 2, cart_item 11 1]"
  "[cart_item 10 2, cart_item 11 1] \<noteq> []"
  "list_all (entry_ok (products (db_shop shop [cart_item 10 2, cart_item 11 1])))
     [cart_item 10 2, cart_item 11 1]"
  "saveError env0 = None"
  "newOrderId env0 \<notin> order_id ` set (orders (db_shop shop [cart_item 10 2, cart_item 11 1]))"
  by (simp_all add: entry_ok_iff db_shop_def shop_def cart_item_def prodA_def prodB_def env0_def)



section \<open>The order of the effects\<close>




section \<open>The placeholder address and the frozen price\<close>



text \<open>
  C9. In a successful checkout the price frozen into the item of a cart entry is the
  product's base price when the product is flagged on sale but has no sale price or a
  sale price of zero, and also when it is not flagged on sale; it is the sale price when
  the product is flagged on sale and its sale price is present and not zero.
\<close>

theorem createOrderFromCart_frozen_price:
  assumes "carts st uid = Some cart" and "cart \<noteq> []"
    and "list_all (entry_ok (products st)) cart"
    and "saveError e = None"
    and "newOrderId e \<notin> order_id ` set (orders st)"
  shows "\<exists>v st'.
      createOrderFromCart e st uid dto = (Inr v, st')
    \<and> length (ov_items v) = length cart
    \<and> (\<forall>k. k < length cart \<longrightarrow>
          (\<exists>p. products st (ci_productId (cart ! k)) = Some p
             \<and> (isOnSale p \<and> (salePrice p = None \<or> salePrice p = Some 0) \<longrightarrow>
                  oi_price (ov_items v ! k) = price p)
             \<and> (\<not> isOnSale p \<longrightarrow> oi_price (ov_items v ! k) = price p)
             \<and> (\<forall>sp. isOnSale p \<and> salePrice p = Some sp \<and> sp \<noteq> 0 \<longrightarrow>
                  oi_price (ov_items v ! k) = sp)))"
proof -
  let ?ps = "products st"
  let ?ord = "new_order e uid dto (cart_order_items ?ps cart) (cart_sum ?ps cart)"
  let ?st' = "after_checkout e st uid ?ord cart"
  have run: "createOrderFromCart e st uid dto = (Inr (order_view_of ?ord), ?st')"
    using assms by (rule createOrderFromCart_success)
  have items: "ov_items (order_view_of ?ord) = cart_order_items ?ps cart"
    by (simp add: order_view_of_def)
  have prices: "\<forall>k. k < length cart \<longrightarrow>
          (\<exists>p. ?ps (ci_productId (cart ! k)) = Some p
             \<and> (isOnSale p \<and> (salePrice p = None \<or> salePrice p = Some 0) \<longrightarrow>
                  oi_price (cart_order_items ?ps cart ! k) = price p)
             \<and> (\<not> isOnSale p \<longrightarrow> oi_price (cart_order_items ?ps cart ! k) = price p)
             \<and> (\<forall>sp. isOnSale p \<and> salePrice p = Some sp \<and> sp \<noteq> 0 \<longrightarrow>
                  oi_price (cart_order_items ?ps cart ! k) = sp))"
  proof (intro allI impI)
    fix k assume k: "k < length cart"
    then have "entry_ok ?ps (cart ! k)"
      using assms(3) by (simp add: list_all_length)
    then obtain p where p: "?ps (ci_productId (cart ! k)) = Some p"
      by (auto simp: entry_ok_iff)
    have "oi_price (cart_order_items ?ps cart ! k) = itemPrice p"
      using k p by (simp add: cart_order_items_nth)
    then have "(isOnSale p \<and> (salePrice p = None \<or> salePrice p = Some 0) \<longrightarrow>
                  oi_price (cart_order_items ?ps cart ! k) = price p)
             \<and> (\<not> isOnSale p \<longrightarrow> oi_price (cart_order_items ?ps cart ! k) = price p)
             \<and> (\<forall>sp. isOnSale p \<and> salePrice p = Some sp \<and> sp \<noteq> 0 \<longrightarrow>
                  oi_price (cart_order_items ?ps cart ! k) = sp)"
      by (auto simp: itemPrice_def)
    with p show "\<exists>p. ?ps (ci_productId (cart ! k)) = Some p
             \<and> (isOnSale p \<and> (salePrice p = None \<or> salePrice p = Some 0) \<longrightarrow>
                  oi_price (cart_order_items ?ps cart ! k) = price p)
             \<and> (\<not> isOnSale p \<longrightarrow> oi_price (cart_order_items ?ps cart ! k) = price p)
             \<and> (\<forall>sp. isOnSale p \<and> salePrice p = Some sp \<and> sp \<noteq> 0 \<longrightarrow>
                  oi_price (cart_order_items ?ps cart ! k) = sp)"
      by blast
  qed
  show ?thesis
    apply (rule exI [of _ "order_view_of ?ord"])
    apply (rule exI [of _ ?st'])
    apply (intro conjI)
      apply (rule run)
     apply (simp add: items)
    apply (simp only: items)
    apply (rule prices)
    done
qed

lemma sale_checkout_hyps:
  "carts (db_shop sale_shop cart) 5 = Some cart"
  "saveError env0 = None"
  "newOrderId env0 \<notin> order_id ` set (orders (db_shop sale_shop cart))"
  "list_all (entry_ok (products (db_shop sale_shop [cart_item 20 4, cart_item 21 1])))
     [cart_item 20 4, cart_item 21 1]"
  "list_all (entry_ok (products (db_shop sale_shop [cart_item 20 4]))) [cart_item 20 4]"
  by (simp_all add: entry_ok_iff db_shop_def sale_shop_def cart_item_def prodS_def prodZ_def
      env0_def)

theorem createOrderFromCart_frozen_price_witness:
  "\<exists>v st'.
      createOrderFromCart env0 (db_shop sale_shop [cart_item 20 4, cart_item 21 1]) 5 dto0
        = (Inr v, st')
    \<and> length (ov_items v) = 2
    \<and> isOnSale prodS \<and> salePrice prodS = Some (169915 / 10000)
    \<and> oi_price (ov_items v ! 0) = 169915 / 10000
    \<and> isOnSale prodZ \<and> salePrice prodZ = Some 0 \<and> price prodZ = 20
    \<and> oi_price (ov_items v ! 1) = 20"
proof -
  let ?cart = "[cart_item 20 4, cart_item 21 1]"
  let ?st = "db_shop sale_shop ?cart"
  obtain v st' where r:
    "createOrderFromCart env0 ?st 5 dto0 = (Inr v, st')"
    "length (ov_items v) = length ?cart"
    "\<forall>k. k < length ?cart \<longrightarrow>
          (\<exists>p. products ?st (ci_productId (?cart ! k)) = Some p
             \<and> (isOnSale p \<and> (salePrice p = None \<or> salePrice p = Some 0) \<longrightarrow>
                  oi_price (ov_items v ! k) = price p)
             \<and> (\<not> isOnSale p \<longrightarrow> oi_price (ov_items v ! k) = price p)
             \<and> (\<forall>sp. isOnSale p \<and> salePrice p = Some sp \<and> sp \<noteq> 0 \<longrightarrow>
                  oi_price (ov_items v ! k) = sp))"
    using createOrderFromCart_frozen_price
      [OF sale_checkout_hyps(1) _ sale_checkout_hyps(4) sale_checkout_hyps(2,3), of dto0]
    by blast
  obtain p where p: "products ?st (ci_productId (?cart ! 0)) = Some p"
    and sale: "\<forall>sp. isOnSale p \<and> salePrice p = Some sp \<and> sp \<noteq> 0 \<longrightarrow>
                  oi_price (ov_items v ! 0) = sp"
    using r(3) [rule_format, of 0] by auto
  have "p = prodS"
    using p by (simp add: db_shop_def sale_shop_def cart_item_def)
  then have p0: "oi_price (ov_items v ! 0) = 169915 / 10000"
    using sale [rule_format, of "169915 / 10000"] by (simp add: prodS_def)
  have p1: "oi_price (ov_items v ! 1) = 20"
    using r(3) [rule_format, of 1]
    by (simp add: db_shop_def sale_shop_def cart_item_def prodZ_def)
  show ?thesis
    using r(1,2) p0 p1
    by (intro exI [of _ v] exI [of _ st']) (simp add: prodS_def prodZ_def)
qed

section \<open>The total in the admin notification\<close>

lemma Math_round_near: "\<bar>of_int (Math_round x) - x\<bar> \<le> 1 / 2"
proof -
  have "of_int \<lfloor>x + 1 / 2\<rfloor> \<le> x + 1 / 2" "x + 1 / 2 < of_int \<lfloor>x + 1 / 2\<rfloor> + 1"
    by linarith+
  then show ?thesis unfolding Math_round_def by linarith
qed

text \<open>The whole-number total equals the two-decimal total exactly when the latter is a
  whole number.\<close>

lemma Math_round_eq_toFixed2_iff:
  "of_int (Math_round x) = toFixed2 x \<longleftrightarrow> toFixed2 x \<in> \<int>"
proof
  assume "of_int (Math_round x) = toFixed2 x"
  then have "toFixed2 x = of_int (Math_round x)" by simp
  then show "toFixed2 x \<in> \<int>" by (simp only: Ints_of_int)
next
  assume "toFixed2 x \<in> \<int>"
  then obtain n :: int where n: "toFixed2 x = of_int n" by (auto elim: Ints_cases)
  have "\<bar>toFixed2 x - x\<bar> \<le> 1 / 200" by (rule toFixed2_near)
  then have "of_int n \<le> x + 1 / 2" "x + 1 / 2 < of_int n + 1"
    unfolding n by linarith+
  then have "\<lfloor>x + 1 / 2\<rfloor> = n" by (simp add: floor_eq_iff)
  then show "of_int (Math_round x) = toFixed2 x"
    by (simp add: Math_round_def n)
qed



section \<open>The admin dashboard's updates\<close>

lemma findById_update_order_fun:
  assumes "\<And>ord. order_id (f ord) = order_id ord"
  shows "findById (update_order i f os) i = map_option f (findById os i)"
  using assms unfolding findById_def update_order_def
  by (induction os) auto

text \<open>For every stored order whose owner exists and every requested status, the
  dashboard's single update succeeds and stores the requested status.\<close>

lemma OrderManagementService_updateOrderStatus_unchecked:
  assumes "findById (orders st) i = Some ord" and "users st (userId ord) = Some u"
  shows "\<exists>r st'. OrderManagementService_updateOrderStatus st i s tn notes = (Inr r, st')
           \<and> map_option status (findById (orders st') i) = Some s"
proof -
  have "findById (update_order i (apply_updateData s tn) (orders st)) i
      = Some (apply_updateData s tn ord)"
    using assms(1) by (simp add: findById_update_order_fun apply_updateData_def)
  moreover have "userId (apply_updateData s tn ord) = userId ord"
      "status (apply_updateData s tn ord) = s"
    by (simp_all add: apply_updateData_def)
  ultimately show ?thesis
    using assms
    by (simp add: OrderManagementService_updateOrderStatus_def Let_def
        sendOrderStatusUpdate_def emit_def)
qed

text \<open>
  C1. The status update of \<^verbatim>\<open>OrdersService\<close> enforces the transition table, the two
  updates of \<^verbatim>\<open>OrderManagementService\<close> do not. A delivered order has no allowed next
  status, and \<^verbatim>\<open>OrdersService.updateOrderStatus\<close> refuses to make it pending; the
  dashboard's single update makes it pending, and the bulk update moves a delivered and
  a pending order to shipped, reporting two modified orders.
\<close>

theorem admin_updates_ignore_transitions:
  "getValidStatusTransitions DELIVERED = []
   \<and> SHIPPED \<notin> set (getValidStatusTransitions PENDING)
   \<and> updateOrderStatus env0 (db_orders [order_ex 1 DELIVERED None None]) 1
        \<lparr>dto_status = PENDING, dto_statusNote = None\<rparr>
      = (Inl (BadRequestException ''Cannot change status from delivered to pending''),
         db_orders [order_ex 1 DELIVERED None None])
   \<and> fst (OrderManagementService_updateOrderStatus (db_orders [order_ex 1 DELIVERED None None])
             1 PENDING None None)
      = Inr \<lparr>ar_order = Some (order_ex 1 PENDING None None),
             ar_message = ''Order status updated to pending''\<rparr>
   \<and> orders (snd (OrderManagementService_updateOrderStatus
                     (db_orders [order_ex 1 DELIVERED None None]) 1 PENDING None None))
      = [order_ex 1 PENDING None None]
   \<and> fst (bulkUpdateOrders
             (db_orders [order_ex 1 DELIVERED None None, order_ex 2 PENDING None None])
             \<lparr>bu_orderIds = [1, 2], bu_status = SHIPPED, bu_trackingNumber = None,
              bu_notes = None\<rparr>)
      = Inr \<lparr>br_success = True, br_affectedOrders = 2, br_status = SHIPPED,
             br_message = ''2 orders updated to shipped''\<rparr>
   \<and> orders (snd (bulkUpdateOrders
                     (db_orders [order_ex 1 DELIVERED None None, order_ex 2 PENDING None None])
                     \<lparr>bu_orderIds = [1, 2], bu_status = SHIPPED, bu_trackingNumber = None,
                      bu_notes = None\<rparr>))
      = [order_ex 1 SHIPPED None None, order_ex 2 SHIPPED None None]"
proof (intro conjI)
  show "getValidStatusTransitions DELIVERED = []" by simp
  show "SHIPPED \<notin> set (getValidStatusTransitions PENDING)" by simp
  show "updateOrderStatus env0 (db_orders [order_ex 1 DELIVERED None None]) 1
        \<lparr>dto_status = PENDING, dto_statusNote = None\<rparr>
      = (Inl (BadRequestException ''Cannot change status from delivered to pending''),
         db_orders [order_ex 1 DELIVERED None None])"
    by (simp add: updateOrderStatus_def db_orders_def order_ex_def findById_def)
  show "fst (OrderManagementService_updateOrderStatus (db_orders [order_ex 1 DELIVERED None None])
             1 PENDING None None)
      = Inr \<lparr>ar_order = Some (order_ex 1 PENDING None None),
             ar_message = ''Order status updated to pending''\<rparr>"
    by (simp add: OrderManagementService_updateOrderStatus_def db_orders_def order_ex_def
        findById_def update_order_def apply_updateData_def Let_def emit_def)
  show "orders (snd (OrderManagementService_updateOrderStatus
                     (db_orders [order_ex 1 DELIVERED None None]) 1 PENDING None None))
      = [order_ex 1 PENDING None None]"
    by (simp add: OrderManagementService_updateOrderStatus_def db_orders_def order_ex_def
        findById_def update_order_def apply_updateData_def Let_def emit_def
        sendOrderStatusUpdate_def)
  show "fst (bulkUpdateOrders
             (db_orders [order_ex 1 DELIVERED None None, order_ex 2 PENDING None None])
             \<lparr>bu_orderIds = [1, 2], bu_status = SHIPPED, bu_trackingNumber = None,
              bu_notes = None\<rparr>)
      = Inr \<lparr>br_success = True, br_affectedOrders = 2, br_status = SHIPPED,
             br_message = ''2 orders updated to shipped''\<rparr>"
    by (simp add: bulkUpdateOrders_def db_orders_def order_ex_def apply_updateData_def Let_def
        emit_def sendOrderStatusUpdate_def digit_char_def)
  show "orders (snd (bulkUpdateOrders
                     (db_orders [order_ex 1 DELIVERED None None, order_ex 2 PENDING None None])
                     \<lparr>bu_orderIds = [1, 2], bu_status = SHIPPED, bu_trackingNumber = None,
                      bu_notes = None\<rparr>))
      = [order_ex 1 SHIPPED None None, order_ex 2 SHIPPED None None]"
    by (simp add: bulkUpdateOrders_def db_orders_def order_ex_def apply_updateData_def Let_def
        emit_def sendOrderStatusUpdate_def)
qed

end
